theory Spec2Isabelle
  imports Complex_Main "HOL-Library.Word"
begin

section \<open>The HIP block-compressed-row matrix of rocALUTION\<close>

text \<open>
  A shallow embedding of \<^verbatim>\<open>src/base/hip/hip_matrix_bcsr.cpp\<close>: the class
  \<^verbatim>\<open>HIPAcceleratorMatrixBCSR<ValueType>\<close> with its allocation, ownership, transfer,
  conversion and multiply operations.

  Conventions of the embedding.
  \<^item> A C++ \<^verbatim>\<open>int\<close> is an \<^typ>\<open>int\<close>: the embedding describes the runs in which no
    signed product overflows (an overflow is undefined behaviour in C++).
  \<^item> A member function takes the object (\<open>this\<close>) and the state of the platform
    (\<open>backend\<close>) and returns the updated object and platform state.
  \<^item> \<^verbatim>\<open>assert\<close> is compiled in: a failed assertion ends the run with
    \<open>Abort AssertionFailed\<close>, \<^verbatim>\<open>FATAL_ERROR\<close> with \<open>Abort FatalError\<close>. Both keep the
    platform state reached, so that what was logged or copied before is visible.
  \<^item> Every call of a platform primitive (allocation, zeroing, release, copy,
    synchronisation, kernels, logging) is appended to the log \<open>calls\<close>.
  \<^item> The memory primitives of the platform succeed: \<^verbatim>\<open>CHECK_HIP_ERROR\<close> finds no
    error. The status of the multiply kernel and the result of the conversion
    kernel, which the code reads, are branches of the model.
\<close>

subsection \<open>Platform: pointers, memory, the log of calls\<close>

datatype ptr = NULL | Addr nat

datatype mem_space = Host | Device

datatype hipMemcpyKind =
  hipMemcpyHostToDevice | hipMemcpyDeviceToHost | hipMemcpyDeviceToDevice

text \<open>The value types the class is instantiated for (the end of the source file).\<close>

datatype value_type = Float | Double | ComplexFloat | ComplexDouble

fun sizeof_ValueType :: "value_type \<Rightarrow> int" where
  "sizeof_ValueType Float = 4"
| "sizeof_ValueType Double = 8"
| "sizeof_ValueType ComplexFloat = 8"
| "sizeof_ValueType ComplexDouble = 16"

definition sizeof_int :: int where
  "sizeof_int = 4"

datatype rocsparse_direction = rocsparse_direction_row | rocsparse_direction_column

record Rocalution_Backend_Descriptor =
  HIP_block_size :: int
  ROC_sparse_handle :: nat

text \<open>
  A byte of memory is \<open>None\<close> while uninitialised. An allocated array is the list of
  its bytes.
\<close>

type_synonym byte = "8 word option"

record bsrmv_args =
  bsrmv_handle :: nat
  bsrmv_dir :: rocsparse_direction
  bsrmv_mb :: int
  bsrmv_nb :: int
  bsrmv_nnzb :: int
  bsrmv_alpha :: real
  bsrmv_descr :: nat
  bsrmv_val :: ptr
  bsrmv_row_offset :: ptr
  bsrmv_col :: ptr
  bsrmv_blockdim :: int
  bsrmv_x :: ptr
  bsrmv_beta :: real
  bsrmv_y :: ptr

datatype call =
    Allocate mem_space int int ptr
  | SetToZero mem_space int ptr
  | Free mem_space ptr
  | Memcpy ptr ptr int hipMemcpyKind
  | MemcpyAsync ptr ptr int hipMemcpyKind
  | DeviceSynchronize
  | LOG_INFO string
  | Bsrmv bsrmv_args
  | CsrToBcsr

record backend =
  next_addr :: nat
  mem :: "nat \<Rightarrow> byte list option"
  calls :: "call list"

datatype fault = AssertionFailed | FatalError

datatype 'a result = Return 'a backend | Abort fault backend

definition and_then :: "'a result \<Rightarrow> ('a \<Rightarrow> backend \<Rightarrow> 'b result) \<Rightarrow> 'b result" where
  "and_then r f = (case r of Return x b \<Rightarrow> f x b | Abort e b \<Rightarrow> Abort e b)"

definition log_call :: "call \<Rightarrow> backend \<Rightarrow> backend" where
  "log_call c b = b\<lparr>calls := calls b @ [c]\<rparr>"

text \<open>
  Modelled from the spec: the allocation helpers of \<^verbatim>\<open>hip_allocate_free.hpp\<close> and their
  host counterparts are not part of the sources at hand. The spec lists them as
  \<^verbatim>\<open>allocate(count) -> pointer\<close>, \<^verbatim>\<open>free(pointer)\<close> and \<^verbatim>\<open>zero(pointer, count)\<close>.
  \<open>allocate\<close> returns a fresh array of \<open>count\<close> elements with uninitialised bytes;
  \<open>set_to_zero\<close> zeroes the first \<open>count\<close> elements of an array; \<open>free\<close> releases
  the array and, being handed the address of the pointer, resets the pointer.
\<close>

definition allocate :: "mem_space \<Rightarrow> int \<Rightarrow> int \<Rightarrow> backend \<Rightarrow> ptr \<times> backend" where
  "allocate sp n sz b =
     (let a = next_addr b in
      (Addr a,
       b\<lparr>next_addr := Suc a,
         mem := (mem b)(a \<mapsto> replicate (nat (n * sz)) None),
         calls := calls b @ [Allocate sp n sz (Addr a)]\<rparr>))"

definition zero_fill :: "nat \<Rightarrow> byte list \<Rightarrow> byte list" where
  "zero_fill k bs = replicate (min k (length bs)) (Some 0) @ drop k bs"

definition set_to_zero :: "mem_space \<Rightarrow> int \<Rightarrow> int \<Rightarrow> ptr \<Rightarrow> backend \<Rightarrow> backend" where
  "set_to_zero sp n sz p b =
     b\<lparr>mem := (case p of
                 NULL \<Rightarrow> mem b
               | Addr a \<Rightarrow> (case mem b a of
                             None \<Rightarrow> mem b
                           | Some bs \<Rightarrow> (mem b)(a \<mapsto> zero_fill (nat (n * sz)) bs))),
       calls := calls b @ [SetToZero sp n p]\<rparr>"

definition free :: "mem_space \<Rightarrow> ptr \<Rightarrow> backend \<Rightarrow> ptr \<times> backend" where
  "free sp p b =
     (NULL,
      b\<lparr>mem := (case p of NULL \<Rightarrow> mem b | Addr a \<Rightarrow> (mem b)(a := None)),
        calls := calls b @ [Free sp p]\<rparr>)"

definition allocate_hip :: "int \<Rightarrow> int \<Rightarrow> backend \<Rightarrow> ptr \<times> backend" where
  "allocate_hip = allocate Device"

text \<open>
  The first argument of \<^verbatim>\<open>set_to_zero_hip\<close> is the launch block size of the zeroing
  kernel; it has no part in what is zeroed.
\<close>

definition set_to_zero_hip :: "int \<Rightarrow> int \<Rightarrow> int \<Rightarrow> ptr \<Rightarrow> backend \<Rightarrow> backend" where
  "set_to_zero_hip block_size = set_to_zero Device"

definition free_hip :: "ptr \<Rightarrow> backend \<Rightarrow> ptr \<times> backend" where
  "free_hip = free Device"

text \<open>
  Modelled from the spec: \<^verbatim>\<open>copy(dst, src, count, direction)\<close> and \<^verbatim>\<open>copy_async\<close> of
  the platform (\<^verbatim>\<open>hipMemcpy\<close>, \<^verbatim>\<open>hipMemcpyAsync\<close>). The call is logged with its byte
  count; the bytes that lie inside both arrays are copied. What the platform does
  with a null pointer or beyond an array is outside the model, which leaves the
  memory as it is there.
\<close>

definition copy_bytes :: "ptr \<Rightarrow> ptr \<Rightarrow> int \<Rightarrow> (nat \<Rightarrow> byte list option) \<Rightarrow> (nat \<Rightarrow> byte list option)" where
  "copy_bytes dst src n m =
     (case dst of
        NULL \<Rightarrow> m
      | Addr d \<Rightarrow>
         (case src of
            NULL \<Rightarrow> m
          | Addr s \<Rightarrow>
             (case m d of
                None \<Rightarrow> m
              | Some db \<Rightarrow>
                 (case m s of
                    None \<Rightarrow> m
                  | Some sb \<Rightarrow>
                     (let k = min (nat n) (min (length db) (length sb))
                      in m(d \<mapsto> take k sb @ drop k db))))))"

definition hipMemcpy :: "ptr \<Rightarrow> ptr \<Rightarrow> int \<Rightarrow> hipMemcpyKind \<Rightarrow> backend \<Rightarrow> backend" where
  "hipMemcpy dst src n kind b =
     b\<lparr>mem := copy_bytes dst src n (mem b), calls := calls b @ [Memcpy dst src n kind]\<rparr>"

definition hipMemcpyAsync :: "ptr \<Rightarrow> ptr \<Rightarrow> int \<Rightarrow> hipMemcpyKind \<Rightarrow> backend \<Rightarrow> backend" where
  "hipMemcpyAsync dst src n kind b =
     b\<lparr>mem := copy_bytes dst src n (mem b), calls := calls b @ [MemcpyAsync dst src n kind]\<rparr>"

definition hipDeviceSynchronize :: "backend \<Rightarrow> backend" where
  "hipDeviceSynchronize = log_call DeviceSynchronize"

subsection \<open>The matrix objects\<close>

text \<open>The layout struct \<^verbatim>\<open>MatrixBCSR\<close> held in the member \<^verbatim>\<open>mat_\<close>.\<close>

record MatrixBCSR =
  nrowb :: int
  ncolb :: int
  nnzb :: int
  blockdim :: int
  row_offset :: ptr
  col :: ptr
  val :: ptr

text \<open>
  The members the source file reads and writes (a name cannot end in an underscore
  here, so each carries a prime). \<^verbatim>\<open>nrow_\<close>, \<^verbatim>\<open>ncol_\<close>, \<^verbatim>\<open>nnz_\<close> and
  \<^verbatim>\<open>local_backend_\<close> come from the base class; the host class \<^verbatim>\<open>HostMatrixBCSR\<close> and
  the accelerator class both own a \<^verbatim>\<open>mat_\<close>; the accelerator class adds the sparse
  descriptor \<^verbatim>\<open>mat_descr_\<close> and its own \<^verbatim>\<open>blockdim_\<close>.
\<close>

record BaseMatrix =
  nrow_' :: int
  ncol_' :: int
  nnz_' :: int
  local_backend_' :: Rocalution_Backend_Descriptor

record HostMatrixBCSR = BaseMatrix +
  mat_' :: MatrixBCSR

record HIPAcceleratorMatrixBCSR = HostMatrixBCSR +
  mat_descr_' :: nat
  blockdim_' :: int

text \<open>
  The unblocked compressed-row matrix on the accelerator, as far as \<^verbatim>\<open>ConvertFrom\<close> reads
  it (its members are also called \<^verbatim>\<open>mat_\<close> and \<^verbatim>\<open>mat_descr_\<close> in C++).
\<close>

record MatrixCSR =
  csr_row_offset :: ptr
  csr_col :: ptr
  csr_val :: ptr

record HIPAcceleratorMatrixCSR = BaseMatrix +
  csr_mat_' :: MatrixCSR
  csr_mat_descr_' :: nat

datatype matrix_format = DENSE | CSR | MCSR | BCSR | COO | DIA | ELL | HYB

text \<open>
  The run-time type of an argument passed as \<^verbatim>\<open>HostMatrix<ValueType>\<close> or
  \<^verbatim>\<open>BaseMatrix<ValueType>\<close>; a \<^verbatim>\<open>dynamic_cast\<close> is a match on the constructor. A class
  the file does not name carries the format its \<^verbatim>\<open>GetMatFormat\<close> reports.
\<close>

datatype host_matrix =
    Host_BCSR HostMatrixBCSR
  | Host_other matrix_format BaseMatrix

datatype base_matrix =
    HIP_BCSR HIPAcceleratorMatrixBCSR
  | HIP_CSR HIPAcceleratorMatrixCSR
  | Host_matrix host_matrix
  | Other_matrix matrix_format BaseMatrix

fun GetMatFormat_host :: "host_matrix \<Rightarrow> matrix_format" where
  "GetMatFormat_host (Host_BCSR h) = BCSR"
| "GetMatFormat_host (Host_other f m) = f"

fun GetMatFormat :: "base_matrix \<Rightarrow> matrix_format" where
  "GetMatFormat (HIP_BCSR h) = BCSR"
| "GetMatFormat (HIP_CSR h) = CSR"
| "GetMatFormat (Host_matrix h) = GetMatFormat_host h"
| "GetMatFormat (Other_matrix f m) = f"

fun GetNnz :: "base_matrix \<Rightarrow> int" where
  "GetNnz (HIP_BCSR h) = nnz_' h"
| "GetNnz (HIP_CSR h) = nnz_' h"
| "GetNnz (Host_matrix (Host_BCSR h)) = nnz_' h"
| "GetNnz (Host_matrix (Host_other f m)) = nnz_' m"
| "GetNnz (Other_matrix f m) = nnz_' m"

text \<open>
  \<^verbatim>\<open>Info\<close> logs a line describing the object. The line of the accelerator block matrix
  is in the source; the lines of the other classes are named after the class.
\<close>

definition Info :: "backend \<Rightarrow> backend" where
  "Info = log_call (LOG_INFO ''HIPAcceleratorMatrixBCSR<ValueType>'')"

fun Info_host :: "host_matrix \<Rightarrow> backend \<Rightarrow> backend" where
  "Info_host (Host_BCSR h) = log_call (LOG_INFO ''HostMatrixBCSR<ValueType>'')"
| "Info_host (Host_other f m) = log_call (LOG_INFO ''HostMatrix<ValueType>'')"

fun Info_base :: "base_matrix \<Rightarrow> backend \<Rightarrow> backend" where
  "Info_base (HIP_BCSR h) = Info"
| "Info_base (HIP_CSR h) = log_call (LOG_INFO ''HIPAcceleratorMatrixCSR<ValueType>'')"
| "Info_base (Host_matrix h) = Info_host h"
| "Info_base (Other_matrix f m) = log_call (LOG_INFO ''BaseMatrix<ValueType>'')"

subsection \<open>Allocation and ownership\<close>

definition Clear :: "HIPAcceleratorMatrixBCSR \<Rightarrow> backend \<Rightarrow> HIPAcceleratorMatrixBCSR \<times> backend" where
  "Clear this b =
     (if nnz_' this > 0 then
        (let (p1, b1) = free_hip (row_offset (mat_' this)) b;
             (p2, b2) = free_hip (col (mat_' this)) b1;
             (p3, b3) = free_hip (val (mat_' this)) b2
         in (this\<lparr>mat_' := (mat_' this)\<lparr>row_offset := p1, col := p2, val := p3\<rparr>,
                  nrow_' := 0, ncol_' := 0, nnz_' := 0\<rparr>, b3))
      else (this, b))"

definition AllocateBCSR ::
  "value_type \<Rightarrow> HIPAcceleratorMatrixBCSR \<Rightarrow> int \<Rightarrow> int \<Rightarrow> int \<Rightarrow> int \<Rightarrow> backend
     \<Rightarrow> HIPAcceleratorMatrixBCSR result" where
  "AllocateBCSR vt this nnzb' nrowb' ncolb' blockdim' b =
     (if \<not> nnzb' \<ge> 0 then Abort AssertionFailed b
      else if \<not> ncolb' \<ge> 0 then Abort AssertionFailed b
      else if \<not> nrowb' \<ge> 0 then Abort AssertionFailed b
      else if \<not> blockdim' > 1 then Abort AssertionFailed b
      else
       (let (this1, b1) = (if nnz_' this > 0 then Clear this b else (this, b)) in
        if nnzb' > 0 then
          (let (p1, b2) = allocate_hip (nrowb' + 1) sizeof_int b1;
               (p2, b3) = allocate_hip nnzb' sizeof_int b2;
               (p3, b4) = allocate_hip (nnzb' * blockdim' * blockdim') (sizeof_ValueType vt) b3;
               bs = HIP_block_size (local_backend_' this1);
               b5 = set_to_zero_hip bs (nrowb' + 1) sizeof_int p1 b4;
               b6 = set_to_zero_hip bs nnzb' sizeof_int p2 b5;
               b7 = set_to_zero_hip bs (nnzb' * blockdim' * blockdim') (sizeof_ValueType vt) p3 b6
           in Return
                (this1\<lparr>nrow_' := nrowb' * blockdim',
                       ncol_' := ncolb' * blockdim',
                       nnz_' := nnzb' * blockdim' * blockdim',
                       mat_' := (mat_' this1)\<lparr>row_offset := p1, col := p2, val := p3,
                                 nrowb := nrowb', ncolb := ncolb', nnzb := nnzb',
                                 blockdim := blockdim'\<rparr>\<rparr>)
                b7)
        else Return this1 b1))"

text \<open>
  \<^verbatim>\<open>SetDataPtrBCSR\<close> takes the three arrays by the address of the caller's pointers and
  only reads them; \<^verbatim>\<open>LeaveDataPtrBCSR\<close> writes the caller's three pointers and the
  caller's \<^verbatim>\<open>blockdim\<close>, which the model returns with the object.
\<close>

definition SetDataPtrBCSR ::
  "HIPAcceleratorMatrixBCSR \<Rightarrow> ptr \<Rightarrow> ptr \<Rightarrow> ptr \<Rightarrow> int \<Rightarrow> int \<Rightarrow> int \<Rightarrow> int \<Rightarrow> backend
     \<Rightarrow> HIPAcceleratorMatrixBCSR result" where
  "SetDataPtrBCSR this row_offset' col' val' nnzb' nrowb' ncolb' blockdim' b =
     (if \<not> row_offset' \<noteq> NULL then Abort AssertionFailed b
      else if \<not> col' \<noteq> NULL then Abort AssertionFailed b
      else if \<not> val' \<noteq> NULL then Abort AssertionFailed b
      else if \<not> nnzb' > 0 then Abort AssertionFailed b
      else if \<not> nrowb' > 0 then Abort AssertionFailed b
      else if \<not> ncolb' > 0 then Abort AssertionFailed b
      else if \<not> blockdim' > 1 then Abort AssertionFailed b
      else
       (let (this1, b1) = Clear this b;
            b2 = hipDeviceSynchronize b1
        in Return
             (this1\<lparr>blockdim_' := blockdim',
                    nrow_' := nrowb' * blockdim',
                    ncol_' := ncolb' * blockdim',
                    nnz_' := nnzb' * blockdim' * blockdim',
                    mat_' := (mat_' this1)\<lparr>nrowb := nrowb', ncolb := ncolb', nnzb := nnzb',
                              blockdim := blockdim',
                              row_offset := row_offset', col := col', val := val'\<rparr>\<rparr>)
             b2))"

definition LeaveDataPtrBCSR ::
  "HIPAcceleratorMatrixBCSR \<Rightarrow> backend
     \<Rightarrow> (HIPAcceleratorMatrixBCSR \<times> ptr \<times> ptr \<times> ptr \<times> int) result" where
  "LeaveDataPtrBCSR this b =
     (if \<not> nrow_' this > 0 then Abort AssertionFailed b
      else if \<not> ncol_' this > 0 then Abort AssertionFailed b
      else if \<not> nnz_' this > 0 then Abort AssertionFailed b
      else if \<not> blockdim (mat_' this) > 1 then Abort AssertionFailed b
      else
       (let b1 = hipDeviceSynchronize b;
            row_offset' = row_offset (mat_' this);
            col' = col (mat_' this);
            val' = val (mat_' this);
            blockdim' = blockdim (mat_' this)
        in Return
             (this\<lparr>mat_' := (mat_' this)\<lparr>row_offset := NULL, col := NULL, val := NULL,
                             blockdim := 0\<rparr>,
                   nrow_' := 0, ncol_' := 0, nnz_' := 0\<rparr>,
              row_offset', col', val', blockdim')
             b1))"

subsection \<open>The host block matrix\<close>

text \<open>
  Modelled from the spec: \<^verbatim>\<open>HostMatrixBCSR::Clear\<close>, \<^verbatim>\<open>HostMatrixBCSR::AllocateBCSR\<close> and
  \<^verbatim>\<open>set_backend\<close> are called by the transfers to the host and are not part of the
  sources at hand. The spec describes one \<open>Clear\<close> (releases the layout's storage and
  resets the shape to \<open>nrow = ncol = nnz = 0\<close>) and one \<open>Allocate\<close> (requires
  \<open>nnzb, nrowb, ncolb \<ge> 0\<close> and \<open>blockdim > 1\<close>, clears existing storage first,
  allocates and zeroes the three arrays and sets the shape when \<open>nnzb > 0\<close>, leaves the
  handle empty when \<open>nnzb = 0\<close>) for both backends; \<open>set_backend\<close> stores the
  descriptor.
\<close>

definition Host_Clear :: "HostMatrixBCSR \<Rightarrow> backend \<Rightarrow> HostMatrixBCSR \<times> backend" where
  "Host_Clear this b =
     (if nnz_' this > 0 then
        (let (p1, b1) = free Host (row_offset (mat_' this)) b;
             (p2, b2) = free Host (col (mat_' this)) b1;
             (p3, b3) = free Host (val (mat_' this)) b2
         in (this\<lparr>mat_' := (mat_' this)\<lparr>row_offset := p1, col := p2, val := p3\<rparr>,
                  nrow_' := 0, ncol_' := 0, nnz_' := 0\<rparr>, b3))
      else (this, b))"

definition Host_AllocateBCSR ::
  "value_type \<Rightarrow> HostMatrixBCSR \<Rightarrow> int \<Rightarrow> int \<Rightarrow> int \<Rightarrow> int \<Rightarrow> backend
     \<Rightarrow> HostMatrixBCSR result" where
  "Host_AllocateBCSR vt this nnzb' nrowb' ncolb' blockdim' b =
     (if \<not> nnzb' \<ge> 0 then Abort AssertionFailed b
      else if \<not> ncolb' \<ge> 0 then Abort AssertionFailed b
      else if \<not> nrowb' \<ge> 0 then Abort AssertionFailed b
      else if \<not> blockdim' > 1 then Abort AssertionFailed b
      else
       (let (this1, b1) = Host_Clear this b in
        if nnzb' > 0 then
          (let (p1, b2) = allocate Host (nrowb' + 1) sizeof_int b1;
               (p2, b3) = allocate Host nnzb' sizeof_int b2;
               (p3, b4) = allocate Host (nnzb' * blockdim' * blockdim') (sizeof_ValueType vt) b3;
               b5 = set_to_zero Host (nrowb' + 1) sizeof_int p1 b4;
               b6 = set_to_zero Host nnzb' sizeof_int p2 b5;
               b7 = set_to_zero Host (nnzb' * blockdim' * blockdim') (sizeof_ValueType vt) p3 b6
           in Return
                (this1\<lparr>nrow_' := nrowb' * blockdim',
                       ncol_' := ncolb' * blockdim',
                       nnz_' := nnzb' * blockdim' * blockdim',
                       mat_' := (mat_' this1)\<lparr>row_offset := p1, col := p2, val := p3,
                                 nrowb := nrowb', ncolb := ncolb', nnzb := nnzb',
                                 blockdim := blockdim'\<rparr>\<rparr>)
                b7)
        else Return this1 b1))"

definition set_backend ::
  "Rocalution_Backend_Descriptor \<Rightarrow> 'a BaseMatrix_scheme \<Rightarrow> 'a BaseMatrix_scheme" where
  "set_backend d m = m\<lparr>local_backend_' := d\<rparr>"

subsection \<open>Transfers\<close>

text \<open>
  The seven assertions between the allocation and the copies of every transfer, in the
  order of the source; each compares a member of \<open>this\<close> with the same member of the
  other matrix.
\<close>

definition shape_asserts :: "'a HostMatrixBCSR_scheme \<Rightarrow> 'b HostMatrixBCSR_scheme \<Rightarrow> bool" where
  "shape_asserts this other =
     (nnz_' this = nnz_' other \<and>
      nrow_' this = nrow_' other \<and>
      ncol_' this = ncol_' other \<and>
      nrowb (mat_' this) = nrowb (mat_' other) \<and>
      ncolb (mat_' this) = ncolb (mat_' other) \<and>
      nnzb (mat_' this) = nnzb (mat_' other) \<and>
      blockdim (mat_' this) = blockdim (mat_' other))"

definition unsupported :: "backend \<Rightarrow> backend" where
  "unsupported b = Info (log_call (LOG_INFO ''Error unsupported HIP matrix type'') b)"

definition CopyFromHost ::
  "value_type \<Rightarrow> HIPAcceleratorMatrixBCSR \<Rightarrow> host_matrix \<Rightarrow> backend
     \<Rightarrow> HIPAcceleratorMatrixBCSR result" where
  "CopyFromHost vt this src b =
     (if \<not> GetMatFormat (HIP_BCSR this) = GetMatFormat_host src then Abort AssertionFailed b
      else case src of
        Host_BCSR cast_mat \<Rightarrow>
          and_then
            (if nnz_' this = 0
             then AllocateBCSR vt this (nnzb (mat_' cast_mat)) (nrowb (mat_' cast_mat))
                    (ncolb (mat_' cast_mat)) (blockdim (mat_' cast_mat)) b
             else Return this b)
            (\<lambda>this1 b1.
               if \<not> shape_asserts this1 cast_mat then Abort AssertionFailed b1
               else
                (let b2 = hipMemcpy (row_offset (mat_' this1)) (row_offset (mat_' cast_mat))
                            ((nrowb (mat_' this1) + 1) * sizeof_int) hipMemcpyHostToDevice b1;
                     b3 = hipMemcpy (col (mat_' this1)) (col (mat_' cast_mat))
                            (nnzb (mat_' this1) * sizeof_int) hipMemcpyHostToDevice b2;
                     b4 = hipMemcpy (val (mat_' this1)) (val (mat_' cast_mat))
                            (nnzb (mat_' this1) * blockdim (mat_' this1) * blockdim (mat_' this1)
                               * sizeof_ValueType vt) hipMemcpyHostToDevice b3
                 in Return this1 b4))
      | Host_other f m \<Rightarrow> Abort FatalError (Info_host src (unsupported b)))"

definition CopyToHost ::
  "value_type \<Rightarrow> HIPAcceleratorMatrixBCSR \<Rightarrow> host_matrix \<Rightarrow> backend \<Rightarrow> host_matrix result" where
  "CopyToHost vt this dst b =
     (if \<not> GetMatFormat (HIP_BCSR this) = GetMatFormat_host dst then Abort AssertionFailed b
      else case dst of
        Host_BCSR cast_mat0 \<Rightarrow>
          (let cast_mat = set_backend (local_backend_' this) cast_mat0 in
           and_then
             (if nnz_' cast_mat = 0
              then Host_AllocateBCSR vt cast_mat (nnzb (mat_' this)) (nrowb (mat_' this))
                     (ncolb (mat_' this)) (blockdim (mat_' this)) b
              else Return cast_mat b)
             (\<lambda>cast_mat1 b1.
                if \<not> shape_asserts this cast_mat1 then Abort AssertionFailed b1
                else
                 (let b2 = hipMemcpy (row_offset (mat_' cast_mat1)) (row_offset (mat_' this))
                             ((nrowb (mat_' this) + 1) * sizeof_int) hipMemcpyDeviceToHost b1;
                      b3 = hipMemcpy (col (mat_' cast_mat1)) (col (mat_' this))
                             (nnzb (mat_' this) * sizeof_int) hipMemcpyDeviceToHost b2;
                      b4 = hipMemcpy (val (mat_' cast_mat1)) (val (mat_' this))
                             (nnzb (mat_' this) * blockdim (mat_' this) * blockdim (mat_' this)
                                * sizeof_ValueType vt) hipMemcpyDeviceToHost b3
                  in Return (Host_BCSR cast_mat1) b4)))
      | Host_other f m \<Rightarrow> Abort FatalError (Info_host dst (unsupported b)))"

definition CopyFrom ::
  "value_type \<Rightarrow> HIPAcceleratorMatrixBCSR \<Rightarrow> base_matrix \<Rightarrow> backend
     \<Rightarrow> HIPAcceleratorMatrixBCSR result" where
  "CopyFrom vt this src b =
     (if \<not> GetMatFormat (HIP_BCSR this) = GetMatFormat src then Abort AssertionFailed b
      else case src of
        HIP_BCSR hip_cast_mat \<Rightarrow>
          and_then
            (if nnz_' this = 0
             then AllocateBCSR vt this (nnzb (mat_' hip_cast_mat)) (nrowb (mat_' hip_cast_mat))
                    (ncolb (mat_' hip_cast_mat)) (blockdim (mat_' hip_cast_mat)) b
             else Return this b)
            (\<lambda>this1 b1.
               if \<not> shape_asserts this1 hip_cast_mat then Abort AssertionFailed b1
               else
                (let b2 = hipMemcpy (row_offset (mat_' this1)) (row_offset (mat_' hip_cast_mat))
                            ((nrowb (mat_' this1) + 1) * sizeof_int) hipMemcpyDeviceToDevice b1;
                     b3 = hipMemcpy (col (mat_' this1)) (col (mat_' hip_cast_mat))
                            (nnzb (mat_' this1) * sizeof_int) hipMemcpyDeviceToDevice b2;
                     b4 = hipMemcpy (val (mat_' this1)) (val (mat_' hip_cast_mat))
                            (nnzb (mat_' this1) * blockdim (mat_' this1) * blockdim (mat_' this1)
                               * sizeof_ValueType vt) hipMemcpyDeviceToDevice b3
                 in Return this1 b4))
      | Host_matrix host_cast_mat \<Rightarrow> CopyFromHost vt this host_cast_mat b
      | HIP_CSR h \<Rightarrow> Abort FatalError (Info_base src (unsupported b))
      | Other_matrix f m \<Rightarrow> Abort FatalError (Info_base src (unsupported b)))"

definition CopyTo ::
  "value_type \<Rightarrow> HIPAcceleratorMatrixBCSR \<Rightarrow> base_matrix \<Rightarrow> backend \<Rightarrow> base_matrix result" where
  "CopyTo vt this dst b =
     (if \<not> GetMatFormat (HIP_BCSR this) = GetMatFormat dst then Abort AssertionFailed b
      else case dst of
        HIP_BCSR hip_cast_mat0 \<Rightarrow>
          (let hip_cast_mat = set_backend (local_backend_' this) hip_cast_mat0 in
           and_then
             (if nnz_' hip_cast_mat = 0
              then AllocateBCSR vt hip_cast_mat (nnzb (mat_' this)) (nrowb (mat_' this))
                     (ncolb (mat_' this)) (blockdim (mat_' this)) b
              else Return hip_cast_mat b)
             (\<lambda>hip_cast_mat1 b1.
                if \<not> shape_asserts this hip_cast_mat1 then Abort AssertionFailed b1
                else
                 (let b2 = hipMemcpy (row_offset (mat_' hip_cast_mat1)) (row_offset (mat_' this))
                             ((nrowb (mat_' this) + 1) * sizeof_int) hipMemcpyDeviceToDevice b1;
                      b3 = hipMemcpy (col (mat_' hip_cast_mat1)) (col (mat_' this))
                             (nnzb (mat_' this) * sizeof_int) hipMemcpyDeviceToDevice b2;
                      b4 = hipMemcpy (val (mat_' hip_cast_mat1)) (val (mat_' this))
                             (nnzb (mat_' this) * blockdim (mat_' this) * blockdim (mat_' this)
                                * sizeof_ValueType vt) hipMemcpyDeviceToDevice b3
                  in Return (HIP_BCSR hip_cast_mat1) b4)))
      | Host_matrix host_cast_mat \<Rightarrow>
          and_then (CopyToHost vt this host_cast_mat b) (\<lambda>h b1. Return (Host_matrix h) b1)
      | HIP_CSR h \<Rightarrow> Abort FatalError (Info_base dst (unsupported b))
      | Other_matrix f m \<Rightarrow> Abort FatalError (Info_base dst (unsupported b)))"

definition CopyFromHostAsync ::
  "value_type \<Rightarrow> HIPAcceleratorMatrixBCSR \<Rightarrow> host_matrix \<Rightarrow> backend
     \<Rightarrow> HIPAcceleratorMatrixBCSR result" where
  "CopyFromHostAsync vt this src b =
     (if \<not> GetMatFormat (HIP_BCSR this) = GetMatFormat_host src then Abort AssertionFailed b
      else case src of
        Host_BCSR cast_mat \<Rightarrow>
          and_then
            (if nnz_' this = 0
             then AllocateBCSR vt this (nnzb (mat_' cast_mat)) (nrowb (mat_' cast_mat))
                    (ncolb (mat_' cast_mat)) (blockdim (mat_' cast_mat)) b
             else Return this b)
            (\<lambda>this1 b1.
               if \<not> shape_asserts this1 cast_mat then Abort AssertionFailed b1
               else if nnz_' this1 > 0 then
                (let b2 = hipMemcpyAsync (row_offset (mat_' this1)) (row_offset (mat_' cast_mat))
                            ((nrowb (mat_' this1) + 1) * sizeof_int) hipMemcpyHostToDevice b1;
                     b3 = hipMemcpyAsync (col (mat_' this1)) (col (mat_' cast_mat))
                            (nnzb (mat_' this1) * sizeof_int) hipMemcpyHostToDevice b2;
                     b4 = hipMemcpyAsync (val (mat_' this1)) (val (mat_' cast_mat))
                            (nnzb (mat_' this1) * blockdim (mat_' this1) * blockdim (mat_' this1)
                               * sizeof_int) hipMemcpyHostToDevice b3
                 in Return this1 b4)
               else Return this1 b1)
      | Host_other f m \<Rightarrow> Abort FatalError (Info_host src (unsupported b)))"

definition CopyToHostAsync ::
  "value_type \<Rightarrow> HIPAcceleratorMatrixBCSR \<Rightarrow> host_matrix \<Rightarrow> backend \<Rightarrow> host_matrix result" where
  "CopyToHostAsync vt this dst b =
     (if \<not> GetMatFormat (HIP_BCSR this) = GetMatFormat_host dst then Abort AssertionFailed b
      else case dst of
        Host_BCSR cast_mat0 \<Rightarrow>
          (let cast_mat = set_backend (local_backend_' this) cast_mat0 in
           and_then
             (if nnz_' cast_mat = 0
              then Host_AllocateBCSR vt cast_mat (nnzb (mat_' this)) (nrowb (mat_' this))
                     (ncolb (mat_' this)) (blockdim (mat_' this)) b
              else Return cast_mat b)
             (\<lambda>cast_mat1 b1.
                if \<not> shape_asserts this cast_mat1 then Abort AssertionFailed b1
                else if nnz_' this > 0 then
                 (let b2 = hipMemcpyAsync (row_offset (mat_' cast_mat1)) (row_offset (mat_' this))
                             ((nrowb (mat_' this) + 1) * sizeof_int) hipMemcpyDeviceToHost b1;
                      b3 = hipMemcpyAsync (col (mat_' cast_mat1)) (col (mat_' this))
                             (nnzb (mat_' this) * sizeof_int) hipMemcpyDeviceToHost b2;
                      b4 = hipMemcpyAsync (val (mat_' cast_mat1)) (val (mat_' this))
                             (nnzb (mat_' this) * blockdim (mat_' this) * blockdim (mat_' this)
                                * sizeof_int) hipMemcpyDeviceToHost b3
                  in Return (Host_BCSR cast_mat1) b4)
                else Return (Host_BCSR cast_mat1) b1))
      | Host_other f m \<Rightarrow> Abort FatalError (Info_host dst (unsupported b)))"

definition CopyFromAsync ::
  "value_type \<Rightarrow> HIPAcceleratorMatrixBCSR \<Rightarrow> base_matrix \<Rightarrow> backend
     \<Rightarrow> HIPAcceleratorMatrixBCSR result" where
  "CopyFromAsync vt this src b =
     (if \<not> GetMatFormat (HIP_BCSR this) = GetMatFormat src then Abort AssertionFailed b
      else case src of
        HIP_BCSR hip_cast_mat \<Rightarrow>
          and_then
            (if nnz_' this = 0
             then AllocateBCSR vt this (nnzb (mat_' hip_cast_mat)) (nrowb (mat_' hip_cast_mat))
                    (ncolb (mat_' hip_cast_mat)) (blockdim (mat_' hip_cast_mat)) b
             else Return this b)
            (\<lambda>this1 b1.
               if \<not> shape_asserts this1 hip_cast_mat then Abort AssertionFailed b1
               else if nnz_' this1 > 0 then
                (let b2 = hipMemcpyAsync (row_offset (mat_' this1)) (row_offset (mat_' hip_cast_mat))
                            ((nrowb (mat_' this1) + 1) * sizeof_int) hipMemcpyDeviceToDevice b1;
                     b3 = hipMemcpyAsync (col (mat_' this1)) (col (mat_' hip_cast_mat))
                            (nnzb (mat_' this1) * sizeof_int) hipMemcpyDeviceToDevice b2;
                     b4 = hipMemcpyAsync (val (mat_' this1)) (val (mat_' hip_cast_mat))
                            (nnzb (mat_' this1) * blockdim (mat_' this1) * blockdim (mat_' this1)
                               * sizeof_int) hipMemcpyDeviceToDevice b3
                 in Return this1 b4)
               else Return this1 b1)
      | Host_matrix host_cast_mat \<Rightarrow> CopyFromHostAsync vt this host_cast_mat b
      | HIP_CSR h \<Rightarrow> Abort FatalError (Info_base src (unsupported b))
      | Other_matrix f m \<Rightarrow> Abort FatalError (Info_base src (unsupported b)))"

text \<open>
  In \<^verbatim>\<open>CopyToAsync\<close> the test that guards the allocation of the destination reads
  \<^verbatim>\<open>this->nnz_\<close>, the member of the source of the copy.
\<close>

definition CopyToAsync ::
  "value_type \<Rightarrow> HIPAcceleratorMatrixBCSR \<Rightarrow> base_matrix \<Rightarrow> backend \<Rightarrow> base_matrix result" where
  "CopyToAsync vt this dst b =
     (if \<not> GetMatFormat (HIP_BCSR this) = GetMatFormat dst then Abort AssertionFailed b
      else case dst of
        HIP_BCSR hip_cast_mat0 \<Rightarrow>
          (let hip_cast_mat = set_backend (local_backend_' this) hip_cast_mat0 in
           and_then
             (if nnz_' this = 0
              then AllocateBCSR vt hip_cast_mat (nnzb (mat_' this)) (nrowb (mat_' this))
                     (ncolb (mat_' this)) (blockdim (mat_' this)) b
              else Return hip_cast_mat b)
             (\<lambda>hip_cast_mat1 b1.
                if \<not> shape_asserts this hip_cast_mat1 then Abort AssertionFailed b1
                else if nnz_' this > 0 then
                 (let b2 = hipMemcpyAsync (row_offset (mat_' hip_cast_mat1)) (row_offset (mat_' this))
                             ((nrowb (mat_' this) + 1) * sizeof_int) hipMemcpyDeviceToDevice b1;
                      b3 = hipMemcpyAsync (col (mat_' hip_cast_mat1)) (col (mat_' this))
                             (nnzb (mat_' this) * sizeof_int) hipMemcpyDeviceToDevice b2;
                      b4 = hipMemcpyAsync (val (mat_' hip_cast_mat1)) (val (mat_' this))
                             (nnzb (mat_' this) * blockdim (mat_' this) * blockdim (mat_' this)
                                * sizeof_int) hipMemcpyDeviceToDevice b3
                  in Return (HIP_BCSR hip_cast_mat1) b4)
                else Return (HIP_BCSR hip_cast_mat1) b1))
      | Host_matrix host_cast_mat \<Rightarrow>
          and_then (CopyToHostAsync vt this host_cast_mat b) (\<lambda>h b1. Return (Host_matrix h) b1)
      | HIP_CSR h \<Rightarrow> Abort FatalError (Info_base dst (unsupported b))
      | Other_matrix f m \<Rightarrow> Abort FatalError (Info_base dst (unsupported b)))"

subsection \<open>Conversion\<close>

text \<open>
  The regrouping kernel \<^verbatim>\<open>csr_to_bcsr_hip\<close> of \<^verbatim>\<open>hip_conversion.hpp\<close> is a parameter:
  it is handed the sparse handle, the shape, layout and descriptor of the source, the
  layout of \<open>this\<close> (by address) and its descriptor; it returns its verdict and the
  layout and platform state it leaves.
\<close>

type_synonym csr_to_bcsr_kernel =
  "nat \<Rightarrow> int \<Rightarrow> int \<Rightarrow> int \<Rightarrow> MatrixCSR \<Rightarrow> nat \<Rightarrow> MatrixBCSR \<Rightarrow> nat \<Rightarrow> backend
     \<Rightarrow> bool \<times> MatrixBCSR \<times> backend"

definition ConvertFrom ::
  "csr_to_bcsr_kernel \<Rightarrow> value_type \<Rightarrow> HIPAcceleratorMatrixBCSR \<Rightarrow> base_matrix \<Rightarrow> backend
     \<Rightarrow> (bool \<times> HIPAcceleratorMatrixBCSR) result" where
  "ConvertFrom csr_to_bcsr_hip vt this mat b =
     (let (this1, b1) = Clear this b in
      if GetNnz mat = 0 then Return (True, this1) b1
      else case mat of
        HIP_BCSR cast_mat_bcsr \<Rightarrow>
          and_then (CopyFrom vt this1 (HIP_BCSR cast_mat_bcsr) b1)
            (\<lambda>this2 b2. Return (True, this2) b2)
      | HIP_CSR cast_mat_csr \<Rightarrow>
          (let (this2, b2) = Clear this1 b1;
               this3 = this2\<lparr>mat_' := (mat_' this2)\<lparr>blockdim := blockdim_' this2\<rparr>\<rparr>;
               (ok, m, b3) =
                  csr_to_bcsr_hip (ROC_sparse_handle (local_backend_' this3))
                    (nnz_' cast_mat_csr) (nrow_' cast_mat_csr) (ncol_' cast_mat_csr)
                    (csr_mat_' cast_mat_csr) (csr_mat_descr_' cast_mat_csr)
                    (mat_' this3) (mat_descr_' this3) (log_call CsrToBcsr b2);
               this4 = this3\<lparr>mat_' := m\<rparr>
           in if ok then
                Return
                  (True,
                   this4\<lparr>nrow_' := nrowb (mat_' this4) * blockdim (mat_' this4),
                          ncol_' := ncolb (mat_' this4) * blockdim (mat_' this4),
                          nnz_' := nnzb (mat_' this4) * blockdim (mat_' this4)
                                     * blockdim (mat_' this4)\<rparr>)
                  b3
              else Return (False, this4) b3)
      | Host_matrix h \<Rightarrow> Return (False, this1) b1
      | Other_matrix f m \<Rightarrow> Return (False, this1) b1)"

subsection \<open>Matrix-vector multiply\<close>

text \<open>
  A vector argument is an accelerator vector (the member \<^verbatim>\<open>vec_\<close> points to its data on
  the device) or a vector of another class. The multiply kernel \<^verbatim>\<open>rocsparseTbsrmv\<close> is
  a parameter that maps its arguments and the platform state to its status (\<open>True\<close> for
  success) and the platform state it leaves; \<^verbatim>\<open>BCSR_IND_BASE\<close> is the macro of
  \<^verbatim>\<open>matrix_formats_ind.hpp\<close>, also a parameter.
\<close>

record HIPAcceleratorVector =
  size_' :: int
  vec_' :: ptr

datatype base_vector = HIP_vector HIPAcceleratorVector | Other_vector int

fun GetSize :: "base_vector \<Rightarrow> int" where
  "GetSize (HIP_vector v) = size_' v"
| "GetSize (Other_vector n) = n"

type_synonym bsrmv_kernel = "bsrmv_args \<Rightarrow> backend \<Rightarrow> bool \<times> backend"

definition Apply ::
  "bsrmv_kernel \<Rightarrow> int \<Rightarrow> HIPAcceleratorMatrixBCSR \<Rightarrow> base_vector \<Rightarrow> base_vector \<Rightarrow> backend
     \<Rightarrow> unit result" where
  "Apply rocsparseTbsrmv BCSR_IND_BASE this in' out b =
     (if nnz_' this > 0 then
        (if \<not> GetSize in' \<ge> 0 then Abort AssertionFailed b
         else if \<not> GetSize out \<ge> 0 then Abort AssertionFailed b
         else if \<not> GetSize in' = ncol_' this then Abort AssertionFailed b
         else if \<not> GetSize out = nrow_' this then Abort AssertionFailed b
         else case in' of
           Other_vector n \<Rightarrow> Abort AssertionFailed b
         | HIP_vector cast_in \<Rightarrow>
            (case out of
               Other_vector n \<Rightarrow> Abort AssertionFailed b
             | HIP_vector cast_out \<Rightarrow>
                (let alpha = 1;
                     beta = 0;
                     dir = (if BCSR_IND_BASE \<noteq> 0 then rocsparse_direction_row
                            else rocsparse_direction_column);
                     args = \<lparr>bsrmv_handle = ROC_sparse_handle (local_backend_' this),
                             bsrmv_dir = dir,
                             bsrmv_mb = nrowb (mat_' this),
                             bsrmv_nb = ncolb (mat_' this),
                             bsrmv_nnzb = nnzb (mat_' this),
                             bsrmv_alpha = alpha,
                             bsrmv_descr = mat_descr_' this,
                             bsrmv_val = val (mat_' this),
                             bsrmv_row_offset = row_offset (mat_' this),
                             bsrmv_col = col (mat_' this),
                             bsrmv_blockdim = blockdim (mat_' this),
                             bsrmv_x = vec_' cast_in,
                             bsrmv_beta = beta,
                             bsrmv_y = vec_' cast_out\<rparr>;
                     (status, b1) = rocsparseTbsrmv args (log_call (Bsrmv args) b)
                 in if status then Return () b1 else Abort FatalError b1)))
      else Return () b)"

definition ApplyAdd ::
  "bsrmv_kernel \<Rightarrow> int \<Rightarrow> HIPAcceleratorMatrixBCSR \<Rightarrow> base_vector \<Rightarrow> real \<Rightarrow> base_vector
     \<Rightarrow> backend \<Rightarrow> unit result" where
  "ApplyAdd rocsparseTbsrmv BCSR_IND_BASE this in' scalar out b =
     (if nnz_' this > 0 then
        (if \<not> GetSize in' \<ge> 0 then Abort AssertionFailed b
         else if \<not> GetSize out \<ge> 0 then Abort AssertionFailed b
         else if \<not> GetSize in' = ncol_' this then Abort AssertionFailed b
         else if \<not> GetSize out = nrow_' this then Abort AssertionFailed b
         else case in' of
           Other_vector n \<Rightarrow> Abort AssertionFailed b
         | HIP_vector cast_in \<Rightarrow>
            (case out of
               Other_vector n \<Rightarrow> Abort AssertionFailed b
             | HIP_vector cast_out \<Rightarrow>
                (let beta = 1;
                     dir = (if BCSR_IND_BASE \<noteq> 0 then rocsparse_direction_row
                            else rocsparse_direction_column);
                     args = \<lparr>bsrmv_handle = ROC_sparse_handle (local_backend_' this),
                             bsrmv_dir = dir,
                             bsrmv_mb = nrowb (mat_' this),
                             bsrmv_nb = ncolb (mat_' this),
                             bsrmv_nnzb = nnzb (mat_' this),
                             bsrmv_alpha = scalar,
                             bsrmv_descr = mat_descr_' this,
                             bsrmv_val = val (mat_' this),
                             bsrmv_row_offset = row_offset (mat_' this),
                             bsrmv_col = col (mat_' this),
                             bsrmv_blockdim = blockdim (mat_' this),
                             bsrmv_x = vec_' cast_in,
                             bsrmv_beta = beta,
                             bsrmv_y = vec_' cast_out\<rparr>;
                     (status, b1) = rocsparseTbsrmv args (log_call (Bsrmv args) b)
                 in if status then Return () b1 else Abort FatalError b1)))
      else Return () b)"

subsection \<open>Observations on a run\<close>

fun calls_of :: "'a result \<Rightarrow> call list" where
  "calls_of (Return x b) = calls b"
| "calls_of (Abort e b) = calls b"

fun returned :: "'a result \<Rightarrow> 'a option" where
  "returned (Return x b) = Some x"
| "returned (Abort e b) = None"

fun fault_of :: "'a result \<Rightarrow> fault option" where
  "fault_of (Return x b) = None"
| "fault_of (Abort e b) = Some e"

definition ret :: "'a \<times> backend \<Rightarrow> 'a result" where
  "ret xb = Return (fst xb) (snd xb)"

fun is_copy :: "call \<Rightarrow> bool" where
  "is_copy (Memcpy d s n k) = True"
| "is_copy (MemcpyAsync d s n k) = True"
| "is_copy c = False"

text \<open>The calls a run that started in \<open>b\<close> has added to the log, and the copies among them.\<close>

definition issued :: "backend \<Rightarrow> 'a result \<Rightarrow> call list" where
  "issued b r = drop (length (calls b)) (calls_of r)"

definition issued_copies :: "backend \<Rightarrow> 'a result \<Rightarrow> call list" where
  "issued_copies b r = filter is_copy (issued b r)"



text \<open>
  The equalities between the shape members of a handle and its layout (for an argument
  of any class: of the block matrix it is, if it is one), and the empty state of a
  handle.
\<close>

definition shape_consistent :: "'a HostMatrixBCSR_scheme \<Rightarrow> bool" where
  "shape_consistent h =
     (nrow_' h = nrowb (mat_' h) * blockdim (mat_' h) \<and>
      ncol_' h = ncolb (mat_' h) * blockdim (mat_' h) \<and>
      nnz_' h = nnzb (mat_' h) * blockdim (mat_' h) * blockdim (mat_' h))"

definition empty_state :: "'a BaseMatrix_scheme \<Rightarrow> bool" where
  "empty_state h = (nrow_' h = 0 \<and> ncol_' h = 0 \<and> nnz_' h = 0)"

fun shape_consistent_host :: "host_matrix \<Rightarrow> bool" where
  "shape_consistent_host (Host_BCSR h) = shape_consistent h"
| "shape_consistent_host (Host_other f m) = True"

fun shape_consistent_base :: "base_matrix \<Rightarrow> bool" where
  "shape_consistent_base (HIP_BCSR h) = shape_consistent h"
| "shape_consistent_base (Host_matrix h) = shape_consistent_host h"
| "shape_consistent_base (HIP_CSR h) = True"
| "shape_consistent_base (Other_matrix f m) = True"

text \<open>
  The arguments the dispatch of the copies, and of the conversion, has no path for.
\<close>

fun unsupported_for_copy :: "base_matrix \<Rightarrow> bool" where
  "unsupported_for_copy (HIP_BCSR h) = False"
| "unsupported_for_copy (Host_matrix (Host_BCSR h)) = False"
| "unsupported_for_copy (Host_matrix (Host_other f m)) = True"
| "unsupported_for_copy (HIP_CSR h) = True"
| "unsupported_for_copy (Other_matrix f m) = True"

fun unsupported_for_convert :: "base_matrix \<Rightarrow> bool" where
  "unsupported_for_convert (HIP_BCSR h) = False"
| "unsupported_for_convert (HIP_CSR h) = False"
| "unsupported_for_convert (Host_matrix h) = True"
| "unsupported_for_convert (Other_matrix f m) = True"

subsection \<open>Concrete objects\<close>

definition backend0 :: backend where
  "backend0 = \<lparr>next_addr = 0, mem = (\<lambda>a. None), calls = []\<rparr>"

definition descr0 :: Rocalution_Backend_Descriptor where
  "descr0 = \<lparr>HIP_block_size = 256, ROC_sparse_handle = 0\<rparr>"

definition empty_layout :: MatrixBCSR where
  "empty_layout =
     \<lparr>nrowb = 0, ncolb = 0, nnzb = 0, blockdim = 0, row_offset = NULL, col = NULL, val = NULL\<rparr>"

definition empty_base :: BaseMatrix where
  "empty_base = \<lparr>nrow_' = 0, ncol_' = 0, nnz_' = 0, local_backend_' = descr0\<rparr>"

definition empty_hip :: HIPAcceleratorMatrixBCSR where
  "empty_hip =
     \<lparr>nrow_' = 0, ncol_' = 0, nnz_' = 0, local_backend_' = descr0, mat_' = empty_layout,
      mat_descr_' = 0, blockdim_' = 0\<rparr>"

definition empty_host :: HostMatrixBCSR where
  "empty_host =
     \<lparr>nrow_' = 0, ncol_' = 0, nnz_' = 0, local_backend_' = descr0, mat_' = empty_layout\<rparr>"

text \<open>An empty handle whose layout says: no blocks, block dimension 2.\<close>

definition vacant_hip :: HIPAcceleratorMatrixBCSR where
  "vacant_hip = empty_hip\<lparr>mat_' := empty_layout\<lparr>blockdim := 2\<rparr>\<rparr>"

definition vacant_host :: HostMatrixBCSR where
  "vacant_host = empty_host\<lparr>mat_' := empty_layout\<lparr>blockdim := 2\<rparr>\<rparr>"

text \<open>
  A populated matrix of one 2 by 2 block (value type \<^verbatim>\<open>double\<close>), made by the allocation
  of the class itself from the empty handle.
\<close>

definition populated_hip :: "HIPAcceleratorMatrixBCSR result" where
  "populated_hip = AllocateBCSR Double empty_hip 1 1 1 2 backend0"

definition populated_host :: "HostMatrixBCSR result" where
  "populated_host = Host_AllocateBCSR Double empty_host 1 1 1 2 backend0"

definition csr4 :: HIPAcceleratorMatrixCSR where
  "csr4 =
     \<lparr>nrow_' = 4, ncol_' = 4, nnz_' = 4, local_backend_' = descr0,
      csr_mat_' = \<lparr>csr_row_offset = Addr 0, csr_col = Addr 1, csr_val = Addr 2\<rparr>,
      csr_mat_descr_' = 0\<rparr>"

definition failing_kernel :: csr_to_bcsr_kernel where
  "failing_kernel h n r c m d m' d' b = (False, m', b)"

definition identity4_kernel :: csr_to_bcsr_kernel where
  "identity4_kernel h n r c m d m' d' b =
     (True, m'\<lparr>nrowb := 2, ncolb := 2, nnzb := 2, row_offset := Addr 3, col := Addr 4,
               val := Addr 5\<rparr>, b)"

definition idle_bsrmv :: bsrmv_kernel where
  "idle_bsrmv args b = (True, b)"

definition vector0 :: base_vector where
  "vector0 = HIP_vector \<lparr>size_' = 0, vec_' = NULL\<rparr>"

section \<open>Facts about the operations\<close>

lemma calls_hipMemcpy [simp]: "calls (hipMemcpy d s n k b) = calls b @ [Memcpy d s n k]"
  by (simp add: hipMemcpy_def)

lemma calls_hipMemcpyAsync [simp]:
  "calls (hipMemcpyAsync d s n k b) = calls b @ [MemcpyAsync d s n k]"
  by (simp add: hipMemcpyAsync_def)

lemma issued_self [simp]: "issued b (Return x b) = []" "issued b (Abort e b) = []"
  by (simp_all add: issued_def)

subsection \<open>Clear\<close>

lemma Clear_noop: "\<not> 0 < nnz_' this \<Longrightarrow> Clear this b = (this, b)"
  by (simp add: Clear_def)

lemma Clear_populated:
  "0 < nnz_' this \<Longrightarrow>
     fst (Clear this b) =
       this\<lparr>mat_' := (mat_' this)\<lparr>row_offset := NULL, col := NULL, val := NULL\<rparr>,
            nrow_' := 0, ncol_' := 0, nnz_' := 0\<rparr>"
  by (simp add: Clear_def free_hip_def free_def split_def Let_def)

lemma Clear_keeps:
  "local_backend_' (fst (Clear this b)) = local_backend_' this"
  "mat_descr_' (fst (Clear this b)) = mat_descr_' this"
  "blockdim_' (fst (Clear this b)) = blockdim_' this"
  by (cases "0 < nnz_' this"; simp add: Clear_populated Clear_noop)+

lemma Clear_empty_state:
  "0 < nnz_' this \<or> empty_state this \<Longrightarrow> empty_state (fst (Clear this b))"
  by (cases "0 < nnz_' this") (auto simp: Clear_populated Clear_noop empty_state_def)

subsection \<open>AllocateBCSR\<close>

lemma AllocateBCSR_total:
  "0 \<le> nnzb' \<Longrightarrow> 0 \<le> nrowb' \<Longrightarrow> 0 \<le> ncolb' \<Longrightarrow> 1 < blockdim' \<Longrightarrow>
   \<exists>this' b'. AllocateBCSR vt this nnzb' nrowb' ncolb' blockdim' b = Return this' b'"
  by (simp add: AllocateBCSR_def Let_def split_def)

lemma AllocateBCSR_Return:
  assumes "AllocateBCSR vt this nnzb' nrowb' ncolb' blockdim' b = Return this' b'"
  shows "0 \<le> nnzb' \<and> 0 \<le> nrowb' \<and> 0 \<le> ncolb' \<and> 1 < blockdim'"
    and "0 < nnzb' \<Longrightarrow>
           nrow_' this' = nrowb' * blockdim' \<and> ncol_' this' = ncolb' * blockdim' \<and>
           nnz_' this' = nnzb' * blockdim' * blockdim' \<and> nrowb (mat_' this') = nrowb' \<and>
           ncolb (mat_' this') = ncolb' \<and> nnzb (mat_' this') = nnzb' \<and>
           blockdim (mat_' this') = blockdim'"
    and "\<not> 0 < nnzb' \<Longrightarrow> this' = fst (if 0 < nnz_' this then Clear this b else (this, b))"
    and "blockdim_' this' = blockdim_' this"
  using assms
  by (auto simp: AllocateBCSR_def Let_def split_def Clear_keeps split: if_splits)


lemma AllocateBCSR_empty:
  assumes "AllocateBCSR vt this nnzb' nrowb' ncolb' blockdim' b = Return this' b'"
    and "nnzb' = 0" and "0 < nnz_' this \<or> empty_state this"
  shows "empty_state this'"
  using assms Clear_empty_state[of this b]
  by (auto simp: AllocateBCSR_def Let_def split_def split: if_splits)

text \<open>
  A handle is populated (\<open>nnz_ > 0\<close>) or in the empty state; the allocation and
  ownership operations keep it so.
\<close>

lemma populated_or_empty_kept:
  "0 < nnz_' this \<or> empty_state this \<Longrightarrow> empty_state (fst (Clear this b))"
  "0 < nnz_' this \<or> empty_state this \<Longrightarrow>
     AllocateBCSR vt this nnzb' nrowb' ncolb' blockdim' b = Return this' b' \<Longrightarrow>
     0 < nnz_' this' \<or> empty_state this'"
  "SetDataPtrBCSR this r c v nnzb' nrowb' ncolb' blockdim' b = Return this' b' \<Longrightarrow>
     0 < nnz_' this'"
  "LeaveDataPtrBCSR this b = Return (this', r, c, v, d) b' \<Longrightarrow> empty_state this'"
proof -
  show "0 < nnz_' this \<or> empty_state this \<Longrightarrow> empty_state (fst (Clear this b))"
    by (rule Clear_empty_state)
  show "0 < nnz_' this \<or> empty_state this \<Longrightarrow>
     AllocateBCSR vt this nnzb' nrowb' ncolb' blockdim' b = Return this' b' \<Longrightarrow>
     0 < nnz_' this' \<or> empty_state this'"
  proof (cases "0 < nnzb'")
    case True
    assume R: "AllocateBCSR vt this nnzb' nrowb' ncolb' blockdim' b = Return this' b'"
    from AllocateBCSR_Return(1)[OF R] True have "0 < nnzb' * blockdim' * blockdim'" by simp
    with AllocateBCSR_Return(2)[OF R True] show ?thesis by simp
  next
    case False
    assume "0 < nnz_' this \<or> empty_state this"
      and R: "AllocateBCSR vt this nnzb' nrowb' ncolb' blockdim' b = Return this' b'"
    moreover from AllocateBCSR_Return(1)[OF R] False have "nnzb' = 0" by simp
    ultimately show ?thesis using AllocateBCSR_empty by blast
  qed
  show "SetDataPtrBCSR this r c v nnzb' nrowb' ncolb' blockdim' b = Return this' b' \<Longrightarrow>
     0 < nnz_' this'"
    by (auto simp: SetDataPtrBCSR_def Let_def split_def split: if_splits)
  show "LeaveDataPtrBCSR this b = Return (this', r, c, v, d) b' \<Longrightarrow> empty_state this'"
    by (auto simp: LeaveDataPtrBCSR_def empty_state_def Let_def split: if_splits)
qed

text \<open>
  On a handle with \<open>nnz_ = 0\<close> the allocation fails an assertion, or changes nothing
  (no blocks asked for), or returns a populated handle; it copies nothing.
\<close>

lemma AllocateBCSR_on_empty:
  assumes "nnz_' this = 0"
  shows "AllocateBCSR vt this n r c d b = Abort AssertionFailed b
     \<or> (AllocateBCSR vt this n r c d b = Return this b \<and> n = 0 \<and> 0 \<le> r \<and> 0 \<le> c \<and> 1 < d)
     \<or> (\<exists>this1 b1. AllocateBCSR vt this n r c d b = Return this1 b1 \<and> 0 < nnz_' this1
            \<and> filter is_copy (issued b (Return this1 b1)) = [])"
proof (cases "0 \<le> n \<and> 0 \<le> r \<and> 0 \<le> c \<and> 1 < d")
  case False
  then show ?thesis by (auto simp: AllocateBCSR_def)
next
  case ok: True
  show ?thesis
  proof (cases "0 < n")
    case False
    with ok assms show ?thesis by (simp add: AllocateBCSR_def)
  next
    case True
    with ok have "0 < n * d * d" by simp
    with ok True assms show ?thesis
      by (simp add: AllocateBCSR_def split_def Let_def issued_def allocate_hip_def
            allocate_def set_to_zero_hip_def set_to_zero_def)
  qed
qed

lemma Host_AllocateBCSR_on_empty:
  assumes "nnz_' this = 0"
  shows "Host_AllocateBCSR vt this n r c d b = Abort AssertionFailed b
     \<or> (Host_AllocateBCSR vt this n r c d b = Return this b \<and> n = 0 \<and> 0 \<le> r \<and> 0 \<le> c \<and> 1 < d)
     \<or> (\<exists>this1 b1. Host_AllocateBCSR vt this n r c d b = Return this1 b1 \<and> 0 < nnz_' this1
            \<and> filter is_copy (issued b (Return this1 b1)) = [])"
proof (cases "0 \<le> n \<and> 0 \<le> r \<and> 0 \<le> c \<and> 1 < d")
  case False
  then show ?thesis by (auto simp: Host_AllocateBCSR_def)
next
  case ok: True
  show ?thesis
  proof (cases "0 < n")
    case False
    with ok assms show ?thesis by (simp add: Host_AllocateBCSR_def Host_Clear_def)
  next
    case True
    with ok have "0 < n * d * d" by simp
    with ok True assms show ?thesis
      by (simp add: Host_AllocateBCSR_def Host_Clear_def split_def Let_def issued_def
            allocate_def set_to_zero_def)
  qed
qed

subsection \<open>The member \<open>blockdim_\<close>\<close>

lemma CopyFromHost_blockdim:
  "CopyFromHost vt this src b = Return this' b' \<Longrightarrow> blockdim_' this' = blockdim_' this"
  by (auto simp: CopyFromHost_def and_then_def Let_def
        split: if_splits result.splits host_matrix.splits dest: AllocateBCSR_Return(4))

lemma CopyFromHostAsync_blockdim:
  "CopyFromHostAsync vt this src b = Return this' b' \<Longrightarrow> blockdim_' this' = blockdim_' this"
  by (auto simp: CopyFromHostAsync_def and_then_def Let_def
        split: if_splits result.splits host_matrix.splits dest: AllocateBCSR_Return(4))

lemma CopyFrom_blockdim:
  "CopyFrom vt this src b = Return this' b' \<Longrightarrow> blockdim_' this' = blockdim_' this"
  by (auto simp: CopyFrom_def and_then_def Let_def CopyFromHost_blockdim
        split: if_splits result.splits base_matrix.splits dest: AllocateBCSR_Return(4))

lemma CopyFromAsync_blockdim:
  "CopyFromAsync vt this src b = Return this' b' \<Longrightarrow> blockdim_' this' = blockdim_' this"
  by (auto simp: CopyFromAsync_def and_then_def Let_def CopyFromHostAsync_blockdim
        split: if_splits result.splits base_matrix.splits dest: AllocateBCSR_Return(4))

lemma CopyTo_blockdim:
  "CopyTo vt this (HIP_BCSR dst) b = Return (HIP_BCSR dst') b' \<Longrightarrow>
     blockdim_' dst' = blockdim_' dst"
  by (auto simp: CopyTo_def and_then_def Let_def set_backend_def
        split: if_splits result.splits dest: AllocateBCSR_Return(4))

lemma CopyToAsync_blockdim:
  "CopyToAsync vt this (HIP_BCSR dst) b = Return (HIP_BCSR dst') b' \<Longrightarrow>
     blockdim_' dst' = blockdim_' dst"
  by (auto simp: CopyToAsync_def and_then_def Let_def set_backend_def
        split: if_splits result.splits dest: AllocateBCSR_Return(4))

lemma ConvertFrom_blockdim:
  assumes "ConvertFrom k vt this mat b = Return (ok, this') b'"
  shows "blockdim_' this' = blockdim_' this"
proof -
  obtain this1 b1 where c1: "Clear this b = (this1, b1)" by (cases "Clear this b")
  have k1: "blockdim_' this1 = blockdim_' this"
    using Clear_keeps(3)[of this b] c1 by simp
  obtain this2 b2 where c2: "Clear this1 b1 = (this2, b2)" by (cases "Clear this1 b1")
  have k2: "blockdim_' this2 = blockdim_' this1"
    using Clear_keeps(3)[of this1 b1] c2 by simp
  show ?thesis
  proof (cases "GetNnz mat = 0")
    case True
    with assms c1 k1 show ?thesis by (simp add: ConvertFrom_def)
  next
    case False
    show ?thesis
    proof (cases mat)
      case (HIP_BCSR s)
      with assms c1 False k1 show ?thesis
        by (auto simp: ConvertFrom_def and_then_def split: result.splits
              dest: CopyFrom_blockdim)
    next
      case (HIP_CSR c)
      with assms c1 c2 False k1 k2 show ?thesis
        by (auto simp: ConvertFrom_def Let_def split_def split: if_splits)
    next
      case (Host_matrix h)
      with assms c1 False k1 show ?thesis by (simp add: ConvertFrom_def)
    next
      case (Other_matrix f m)
      with assms c1 False k1 show ?thesis by (simp add: ConvertFrom_def)
    qed
  qed
qed

subsection \<open>The shape equalities\<close>

lemma AllocateBCSR_shape:
  "0 < nnzb' \<Longrightarrow> AllocateBCSR vt this nnzb' nrowb' ncolb' blockdim' b = Return this' b' \<Longrightarrow>
     shape_consistent this'"
  by (simp add: shape_consistent_def AllocateBCSR_Return(2))

lemma SetDataPtrBCSR_shape:
  "SetDataPtrBCSR this r c v nnzb' nrowb' ncolb' blockdim' b = Return this' b' \<Longrightarrow>
     shape_consistent this'"
  by (auto simp: SetDataPtrBCSR_def shape_consistent_def Let_def split_def split: if_splits)

lemma LeaveDataPtrBCSR_shape:
  "LeaveDataPtrBCSR this b = Return (this', r, c, v, d) b' \<Longrightarrow> shape_consistent this'"
  by (auto simp: LeaveDataPtrBCSR_def shape_consistent_def Let_def split: if_splits)

lemma shape_asserts_consistent:
  "shape_asserts x y \<Longrightarrow> shape_consistent x = shape_consistent y"
  by (auto simp: shape_asserts_def shape_consistent_def)

lemma CopyFromHost_shape:
  "shape_consistent_host src \<Longrightarrow> CopyFromHost vt this src b = Return this' b' \<Longrightarrow>
     shape_consistent this'"
  by (auto simp: CopyFromHost_def and_then_def Let_def shape_asserts_consistent
        split: if_splits result.splits host_matrix.splits)

lemma CopyFromHostAsync_shape:
  "shape_consistent_host src \<Longrightarrow> CopyFromHostAsync vt this src b = Return this' b' \<Longrightarrow>
     shape_consistent this'"
  by (auto simp: CopyFromHostAsync_def and_then_def Let_def shape_asserts_consistent
        split: if_splits result.splits host_matrix.splits)

lemma CopyFrom_shape:
  "shape_consistent_base src \<Longrightarrow> CopyFrom vt this src b = Return this' b' \<Longrightarrow>
     shape_consistent this'"
  by (auto simp: CopyFrom_def and_then_def Let_def shape_asserts_consistent CopyFromHost_shape
        split: if_splits result.splits base_matrix.splits)

lemma CopyFromAsync_shape:
  "shape_consistent_base src \<Longrightarrow> CopyFromAsync vt this src b = Return this' b' \<Longrightarrow>
     shape_consistent this'"
  by (auto simp: CopyFromAsync_def and_then_def Let_def shape_asserts_consistent
        CopyFromHostAsync_shape split: if_splits result.splits base_matrix.splits)

lemma CopyToHost_shape:
  "shape_consistent this \<Longrightarrow> CopyToHost vt this dst b = Return dst' b' \<Longrightarrow>
     shape_consistent_host dst'"
  by (auto simp: CopyToHost_def and_then_def Let_def shape_asserts_consistent
        split: if_splits result.splits host_matrix.splits)

lemma CopyToHostAsync_shape:
  "shape_consistent this \<Longrightarrow> CopyToHostAsync vt this dst b = Return dst' b' \<Longrightarrow>
     shape_consistent_host dst'"
  by (auto simp: CopyToHostAsync_def and_then_def Let_def shape_asserts_consistent
        split: if_splits result.splits host_matrix.splits)

lemma CopyTo_shape:
  "shape_consistent this \<Longrightarrow> CopyTo vt this dst b = Return dst' b' \<Longrightarrow>
     shape_consistent_base dst'"
  by (auto simp: CopyTo_def and_then_def Let_def shape_asserts_consistent
        split: if_splits result.splits base_matrix.splits dest: CopyToHost_shape)

lemma CopyToAsync_shape:
  "shape_consistent this \<Longrightarrow> CopyToAsync vt this dst b = Return dst' b' \<Longrightarrow>
     shape_consistent_base dst'"
  by (auto simp: CopyToAsync_def and_then_def Let_def shape_asserts_consistent
        split: if_splits result.splits base_matrix.splits dest: CopyToHostAsync_shape)

lemma ConvertFrom_shape:
  assumes "ConvertFrom k vt this src b = Return (True, this') b'"
    and "GetNnz src \<noteq> 0" and "shape_consistent_base src"
  shows "shape_consistent this'"
proof (cases src)
  case (HIP_BCSR s)
  with assms have
    "CopyFrom vt (fst (Clear this b)) (HIP_BCSR s) (snd (Clear this b)) = Return this' b'"
    by (auto simp: ConvertFrom_def and_then_def Let_def split_def split: result.splits)
  then show ?thesis
    using CopyFrom_shape[of "HIP_BCSR s"] assms(3) HIP_BCSR by simp
next
  case (HIP_CSR c)
  with assms show ?thesis
    by (auto simp: ConvertFrom_def shape_consistent_def Let_def split_def split: if_splits)
next
  case (Host_matrix h)
  with assms show ?thesis by (simp add: ConvertFrom_def Let_def split_def)
next
  case (Other_matrix f m)
  with assms show ?thesis by (simp add: ConvertFrom_def Let_def split_def)
qed

lemma Clear_layout:
  "nrowb (mat_' (fst (Clear this b))) = nrowb (mat_' this)"
  "ncolb (mat_' (fst (Clear this b))) = ncolb (mat_' this)"
  "nnzb (mat_' (fst (Clear this b))) = nnzb (mat_' this)"
  "blockdim (mat_' (fst (Clear this b))) = blockdim (mat_' this)"
  by (cases "0 < nnz_' this"; simp add: Clear_populated Clear_noop)+

subsection \<open>Transfers between two empty matrices\<close>

lemma CopyFromHost_both_empty:
  assumes "nnz_' this = 0" "nnz_' s = 0"
  shows "issued_copies b (CopyFromHostAsync vt this (Host_BCSR s) b) = []"
    and "returned (CopyFromHost vt this (Host_BCSR s) b)
           = returned (CopyFromHostAsync vt this (Host_BCSR s) b)"
    and "returned (CopyFromHost vt this (Host_BCSR s) b) \<noteq> None \<Longrightarrow>
          issued_copies b (CopyFromHost vt this (Host_BCSR s) b) =
            [Memcpy (row_offset (mat_' this)) (row_offset (mat_' s))
               ((nrowb (mat_' s) + 1) * sizeof_int) hipMemcpyHostToDevice,
             Memcpy (col (mat_' this)) (col (mat_' s)) 0 hipMemcpyHostToDevice,
             Memcpy (val (mat_' this)) (val (mat_' s)) 0 hipMemcpyHostToDevice] \<and>
          0 < (nrowb (mat_' s) + 1) * sizeof_int"
  using assms AllocateBCSR_on_empty[OF assms(1), of vt "nnzb (mat_' s)" "nrowb (mat_' s)"
                "ncolb (mat_' s)" "blockdim (mat_' s)" b]
  by (auto simp: CopyFromHostAsync_def CopyFromHost_def issued_copies_def and_then_def
        shape_asserts_def Let_def issued_def sizeof_int_def split: if_splits)

lemma CopyFrom_both_empty:
  assumes "nnz_' this = 0" "nnz_' s = 0"
  shows "issued_copies b (CopyFromAsync vt this (HIP_BCSR s) b) = []"
    and "returned (CopyFrom vt this (HIP_BCSR s) b)
           = returned (CopyFromAsync vt this (HIP_BCSR s) b)"
    and "returned (CopyFrom vt this (HIP_BCSR s) b) \<noteq> None \<Longrightarrow>
          issued_copies b (CopyFrom vt this (HIP_BCSR s) b) =
            [Memcpy (row_offset (mat_' this)) (row_offset (mat_' s))
               ((nrowb (mat_' s) + 1) * sizeof_int) hipMemcpyDeviceToDevice,
             Memcpy (col (mat_' this)) (col (mat_' s)) 0 hipMemcpyDeviceToDevice,
             Memcpy (val (mat_' this)) (val (mat_' s)) 0 hipMemcpyDeviceToDevice] \<and>
          0 < (nrowb (mat_' s) + 1) * sizeof_int"
  using assms AllocateBCSR_on_empty[OF assms(1), of vt "nnzb (mat_' s)" "nrowb (mat_' s)"
                "ncolb (mat_' s)" "blockdim (mat_' s)" b]
  by (auto simp: CopyFromAsync_def CopyFrom_def issued_copies_def and_then_def
        shape_asserts_def Let_def issued_def sizeof_int_def split: if_splits)

lemma CopyTo_both_empty:
  assumes "nnz_' this = 0" "nnz_' d = 0"
  shows "issued_copies b (CopyToAsync vt this (HIP_BCSR d) b) = []"
    and "returned (CopyTo vt this (HIP_BCSR d) b) = returned (CopyToAsync vt this (HIP_BCSR d) b)"
    and "returned (CopyTo vt this (HIP_BCSR d) b) \<noteq> None \<Longrightarrow>
          issued_copies b (CopyTo vt this (HIP_BCSR d) b) =
            [Memcpy (row_offset (mat_' d)) (row_offset (mat_' this))
               ((nrowb (mat_' this) + 1) * sizeof_int) hipMemcpyDeviceToDevice,
             Memcpy (col (mat_' d)) (col (mat_' this)) 0 hipMemcpyDeviceToDevice,
             Memcpy (val (mat_' d)) (val (mat_' this)) 0 hipMemcpyDeviceToDevice] \<and>
          0 < (nrowb (mat_' this) + 1) * sizeof_int"
proof -
  let ?d = "set_backend (local_backend_' this) d"
  have d0: "nnz_' ?d = 0" and m: "mat_' ?d = mat_' d"
    using assms by (simp_all add: set_backend_def)
  note A = AllocateBCSR_on_empty[OF d0, of vt "nnzb (mat_' this)" "nrowb (mat_' this)"
             "ncolb (mat_' this)" "blockdim (mat_' this)" b]
  show "issued_copies b (CopyToAsync vt this (HIP_BCSR d) b) = []"
    using assms A d0 m
    by (auto simp: CopyToAsync_def issued_copies_def and_then_def shape_asserts_def Let_def
          issued_def split: if_splits)
  show "returned (CopyTo vt this (HIP_BCSR d) b) = returned (CopyToAsync vt this (HIP_BCSR d) b)"
    using assms A d0 m
    by (auto simp: CopyToAsync_def CopyTo_def and_then_def shape_asserts_def Let_def
          split: if_splits)
  show "returned (CopyTo vt this (HIP_BCSR d) b) \<noteq> None \<Longrightarrow>
          issued_copies b (CopyTo vt this (HIP_BCSR d) b) =
            [Memcpy (row_offset (mat_' d)) (row_offset (mat_' this))
               ((nrowb (mat_' this) + 1) * sizeof_int) hipMemcpyDeviceToDevice,
             Memcpy (col (mat_' d)) (col (mat_' this)) 0 hipMemcpyDeviceToDevice,
             Memcpy (val (mat_' d)) (val (mat_' this)) 0 hipMemcpyDeviceToDevice] \<and>
          0 < (nrowb (mat_' this) + 1) * sizeof_int"
    using assms A d0 m
    by (auto simp: CopyTo_def issued_copies_def and_then_def shape_asserts_def Let_def
          issued_def sizeof_int_def split: if_splits)
qed

lemma CopyToHost_both_empty:
  assumes "nnz_' this = 0" "nnz_' d = 0"
  shows "issued_copies b (CopyToHostAsync vt this (Host_BCSR d) b) = []"
    and "returned (CopyToHost vt this (Host_BCSR d) b)
           = returned (CopyToHostAsync vt this (Host_BCSR d) b)"
    and "returned (CopyToHost vt this (Host_BCSR d) b) \<noteq> None \<Longrightarrow>
          issued_copies b (CopyToHost vt this (Host_BCSR d) b) =
            [Memcpy (row_offset (mat_' d)) (row_offset (mat_' this))
               ((nrowb (mat_' this) + 1) * sizeof_int) hipMemcpyDeviceToHost,
             Memcpy (col (mat_' d)) (col (mat_' this)) 0 hipMemcpyDeviceToHost,
             Memcpy (val (mat_' d)) (val (mat_' this)) 0 hipMemcpyDeviceToHost] \<and>
          0 < (nrowb (mat_' this) + 1) * sizeof_int"
proof -
  let ?d = "set_backend (local_backend_' this) d"
  have d0: "nnz_' ?d = 0" and m: "mat_' ?d = mat_' d"
    using assms by (simp_all add: set_backend_def)
  note A = Host_AllocateBCSR_on_empty[OF d0, of vt "nnzb (mat_' this)" "nrowb (mat_' this)"
             "ncolb (mat_' this)" "blockdim (mat_' this)" b]
  show "issued_copies b (CopyToHostAsync vt this (Host_BCSR d) b) = []"
    using assms A d0 m
    by (auto simp: CopyToHostAsync_def issued_copies_def and_then_def shape_asserts_def
          Let_def issued_def split: if_splits)
  show "returned (CopyToHost vt this (Host_BCSR d) b)
          = returned (CopyToHostAsync vt this (Host_BCSR d) b)"
    using assms A d0 m
    by (auto simp: CopyToHostAsync_def CopyToHost_def and_then_def shape_asserts_def Let_def
          split: if_splits)
  show "returned (CopyToHost vt this (Host_BCSR d) b) \<noteq> None \<Longrightarrow>
          issued_copies b (CopyToHost vt this (Host_BCSR d) b) =
            [Memcpy (row_offset (mat_' d)) (row_offset (mat_' this))
               ((nrowb (mat_' this) + 1) * sizeof_int) hipMemcpyDeviceToHost,
             Memcpy (col (mat_' d)) (col (mat_' this)) 0 hipMemcpyDeviceToHost,
             Memcpy (val (mat_' d)) (val (mat_' this)) 0 hipMemcpyDeviceToHost] \<and>
          0 < (nrowb (mat_' this) + 1) * sizeof_int"
    using assms A d0 m
    by (auto simp: CopyToHost_def issued_copies_def and_then_def shape_asserts_def Let_def
          issued_def sizeof_int_def split: if_splits)
qed

subsection \<open>Arguments without a path\<close>

lemma copy_format_assert:
  assumes "GetMatFormat m \<noteq> BCSR"
  shows "CopyFrom vt this m b = Abort AssertionFailed b"
    and "CopyTo vt this m b = Abort AssertionFailed b"
    and "CopyFromAsync vt this m b = Abort AssertionFailed b"
    and "CopyToAsync vt this m b = Abort AssertionFailed b"
  using assms by (auto simp: CopyFrom_def CopyTo_def CopyFromAsync_def CopyToAsync_def)

lemma copy_unsupported:
  assumes "unsupported_for_copy m" and "GetMatFormat m = BCSR"
  shows "CopyFrom vt this m b = Abort FatalError (Info_base m (unsupported b))"
    and "CopyTo vt this m b = Abort FatalError (Info_base m (unsupported b))"
    and "CopyFromAsync vt this m b = Abort FatalError (Info_base m (unsupported b))"
    and "CopyToAsync vt this m b = Abort FatalError (Info_base m (unsupported b))"
  using assms
  by (cases m rule: unsupported_for_copy.cases;
      simp add: CopyFrom_def CopyTo_def CopyFromAsync_def CopyToAsync_def CopyFromHost_def
        CopyToHost_def CopyFromHostAsync_def CopyToHostAsync_def and_then_def)+

lemma ConvertFrom_unsupported:
  assumes "unsupported_for_convert m"
  shows "ConvertFrom k vt this m b =
           Return (GetNnz m = 0, fst (Clear this b)) (snd (Clear this b))"
  using assms
  by (cases m rule: unsupported_for_convert.cases)
     (simp_all add: ConvertFrom_def Let_def split_def)

section \<open>The claims\<close>

lemmas fixture_defs =
  backend0_def descr0_def empty_layout_def empty_base_def empty_hip_def empty_host_def
  vacant_hip_def vacant_host_def populated_hip_def populated_host_def csr4_def
  failing_kernel_def identity4_kernel_def idle_bsrmv_def vector0_def

lemmas platform_defs =
  allocate_def allocate_hip_def set_to_zero_def set_to_zero_hip_def free_def free_hip_def
  hipMemcpy_def hipMemcpyAsync_def hipDeviceSynchronize_def log_call_def sizeof_int_def
  zero_fill_def copy_bytes_def and_then_def Let_def

text \<open>
  Claim C1 (the value array is copied as \<open>nnzb * blockdim * blockdim\<close> elements of the
  value type, after the row-pointer and the column-index copies). The order holds, and
  the synchronous transfers size the third copy by \<^verbatim>\<open>sizeof(ValueType)\<close>; the four
  asynchronous transfers size it by \<^verbatim>\<open>sizeof(int)\<close>. For a matrix of \<^verbatim>\<open>double\<close> with one
  2 by 2 block the value array has 32 bytes: each asynchronous transfer copies 16 of
  them, the synchronous transfer all 32.
\<close>

theorem async_value_copy_sized_by_int:
  "issued_copies backend0
     (and_then populated_host (\<lambda>src. CopyFromHostAsync Double empty_hip (Host_BCSR src))) =
     [MemcpyAsync (Addr 3) (Addr 0) 8 hipMemcpyHostToDevice,
      MemcpyAsync (Addr 4) (Addr 1) 4 hipMemcpyHostToDevice,
      MemcpyAsync (Addr 5) (Addr 2) 16 hipMemcpyHostToDevice] \<and>
   issued_copies backend0
     (and_then populated_hip (\<lambda>this. CopyToHostAsync Double this (Host_BCSR empty_host))) =
     [MemcpyAsync (Addr 3) (Addr 0) 8 hipMemcpyDeviceToHost,
      MemcpyAsync (Addr 4) (Addr 1) 4 hipMemcpyDeviceToHost,
      MemcpyAsync (Addr 5) (Addr 2) 16 hipMemcpyDeviceToHost] \<and>
   issued_copies backend0
     (and_then populated_hip (\<lambda>src. CopyFromAsync Double empty_hip (HIP_BCSR src))) =
     [MemcpyAsync (Addr 3) (Addr 0) 8 hipMemcpyDeviceToDevice,
      MemcpyAsync (Addr 4) (Addr 1) 4 hipMemcpyDeviceToDevice,
      MemcpyAsync (Addr 5) (Addr 2) 16 hipMemcpyDeviceToDevice] \<and>
   issued_copies backend0
     (and_then populated_hip (\<lambda>this b.
        and_then (AllocateBCSR Double empty_hip 1 1 1 2 b)
          (\<lambda>dst. CopyToAsync Double this (HIP_BCSR dst)))) =
     [MemcpyAsync (Addr 3) (Addr 0) 8 hipMemcpyDeviceToDevice,
      MemcpyAsync (Addr 4) (Addr 1) 4 hipMemcpyDeviceToDevice,
      MemcpyAsync (Addr 5) (Addr 2) 16 hipMemcpyDeviceToDevice] \<and>
   issued_copies backend0
     (and_then populated_host (\<lambda>src. CopyFromHost Double empty_hip (Host_BCSR src))) =
     [Memcpy (Addr 3) (Addr 0) 8 hipMemcpyHostToDevice,
      Memcpy (Addr 4) (Addr 1) 4 hipMemcpyHostToDevice,
      Memcpy (Addr 5) (Addr 2) 32 hipMemcpyHostToDevice] \<and>
   1 * 2 * 2 * sizeof_ValueType Double = 32"
proof -
  have 1: "issued_copies backend0
     (and_then populated_host (\<lambda>src. CopyFromHostAsync Double empty_hip (Host_BCSR src))) =
     [MemcpyAsync (Addr 3) (Addr 0) 8 hipMemcpyHostToDevice,
      MemcpyAsync (Addr 4) (Addr 1) 4 hipMemcpyHostToDevice,
      MemcpyAsync (Addr 5) (Addr 2) 16 hipMemcpyHostToDevice]"
    by (simp add: issued_copies_def issued_def CopyFromHostAsync_def AllocateBCSR_def
          Host_AllocateBCSR_def Host_Clear_def shape_asserts_def platform_defs fixture_defs)
  have 2: "issued_copies backend0
     (and_then populated_hip (\<lambda>this. CopyToHostAsync Double this (Host_BCSR empty_host))) =
     [MemcpyAsync (Addr 3) (Addr 0) 8 hipMemcpyDeviceToHost,
      MemcpyAsync (Addr 4) (Addr 1) 4 hipMemcpyDeviceToHost,
      MemcpyAsync (Addr 5) (Addr 2) 16 hipMemcpyDeviceToHost]"
    by (simp add: issued_copies_def issued_def CopyToHostAsync_def AllocateBCSR_def
          Host_AllocateBCSR_def Host_Clear_def set_backend_def shape_asserts_def
          platform_defs fixture_defs)
  have 3: "issued_copies backend0
     (and_then populated_hip (\<lambda>src. CopyFromAsync Double empty_hip (HIP_BCSR src))) =
     [MemcpyAsync (Addr 3) (Addr 0) 8 hipMemcpyDeviceToDevice,
      MemcpyAsync (Addr 4) (Addr 1) 4 hipMemcpyDeviceToDevice,
      MemcpyAsync (Addr 5) (Addr 2) 16 hipMemcpyDeviceToDevice]"
    by (simp add: issued_copies_def issued_def CopyFromAsync_def AllocateBCSR_def
          shape_asserts_def platform_defs fixture_defs)
  have 4: "issued_copies backend0
     (and_then populated_hip (\<lambda>this b.
        and_then (AllocateBCSR Double empty_hip 1 1 1 2 b)
          (\<lambda>dst. CopyToAsync Double this (HIP_BCSR dst)))) =
     [MemcpyAsync (Addr 3) (Addr 0) 8 hipMemcpyDeviceToDevice,
      MemcpyAsync (Addr 4) (Addr 1) 4 hipMemcpyDeviceToDevice,
      MemcpyAsync (Addr 5) (Addr 2) 16 hipMemcpyDeviceToDevice]"
    by (simp add: issued_copies_def issued_def CopyToAsync_def AllocateBCSR_def
          set_backend_def shape_asserts_def platform_defs fixture_defs)
  have 5: "issued_copies backend0
     (and_then populated_host (\<lambda>src. CopyFromHost Double empty_hip (Host_BCSR src))) =
     [Memcpy (Addr 3) (Addr 0) 8 hipMemcpyHostToDevice,
      Memcpy (Addr 4) (Addr 1) 4 hipMemcpyHostToDevice,
      Memcpy (Addr 5) (Addr 2) 32 hipMemcpyHostToDevice]"
    by (simp add: issued_copies_def issued_def CopyFromHost_def AllocateBCSR_def
          Host_AllocateBCSR_def Host_Clear_def shape_asserts_def platform_defs fixture_defs)
  show ?thesis using 1 2 3 4 5 by simp
qed

text \<open>
  Claim C2 (the destination is allocated to the source's shape if and only if the
  destination has \<open>nnz = 0\<close> before the copy; the shape assertions come before any copy).
  The assertions do come first in all eight transfers, and seven of them test the
  destination's \<open>nnz_\<close>. \<^verbatim>\<open>CopyToAsync\<close> tests the source's. Copying a populated matrix
  to an empty accelerator destination: \<open>CopyToAsync\<close> allocates nothing and fails the
  first shape assertion, where \<open>CopyTo\<close> allocates the destination and returns it with
  \<open>nnz = 4\<close>. Copying an empty matrix to a populated destination: \<open>CopyToAsync\<close> runs
  the allocation on the destination, which releases its three arrays, before it fails
  an assertion; \<open>CopyTo\<close> fails the assertion with the destination untouched.
\<close>

theorem CopyToAsync_allocation_guard:
  "fault_of (and_then populated_hip (\<lambda>this. CopyToAsync Double this (HIP_BCSR empty_hip)))
     = Some AssertionFailed \<and>
   issued backend0 (and_then populated_hip (\<lambda>this. CopyToAsync Double this (HIP_BCSR empty_hip)))
     = issued backend0 populated_hip \<and>
   map_option GetNnz
     (returned (and_then populated_hip (\<lambda>this. CopyTo Double this (HIP_BCSR empty_hip))))
     = Some 4 \<and>
   fault_of (and_then populated_hip (\<lambda>dst. CopyToAsync Double vacant_hip (HIP_BCSR dst)))
     = Some AssertionFailed \<and>
   issued backend0 (and_then populated_hip (\<lambda>dst. CopyToAsync Double vacant_hip (HIP_BCSR dst)))
     = issued backend0 populated_hip @ [Free Device (Addr 0), Free Device (Addr 1), Free Device (Addr 2)] \<and>
   fault_of (and_then populated_hip (\<lambda>dst. CopyTo Double vacant_hip (HIP_BCSR dst)))
     = Some AssertionFailed \<and>
   issued backend0 (and_then populated_hip (\<lambda>dst. CopyTo Double vacant_hip (HIP_BCSR dst)))
     = issued backend0 populated_hip"
proof -
  have pop: "populated_hip =
      Return
       \<lparr>nrow_' = 2, ncol_' = 2, nnz_' = 4, local_backend_' = descr0,
        mat_' = \<lparr>nrowb = 1, ncolb = 1, nnzb = 1, blockdim = 2, row_offset = Addr 0,
                 col = Addr 1, val = Addr 2\<rparr>,
        mat_descr_' = 0, blockdim_' = 0\<rparr>
       (case populated_hip of Return h b \<Rightarrow> b | Abort e b \<Rightarrow> b)"
    by (simp add: AllocateBCSR_def platform_defs fixture_defs)
  have 1: "and_then populated_hip (\<lambda>this. CopyToAsync Double this (HIP_BCSR empty_hip))
             = and_then populated_hip (\<lambda>this. Abort AssertionFailed)"
    by (subst (1 2) pop) (simp add: CopyToAsync_def shape_asserts_def set_backend_def and_then_def empty_hip_def)
  have 2: "map_option GetNnz
     (returned (and_then populated_hip (\<lambda>this. CopyTo Double this (HIP_BCSR empty_hip))))
     = Some 4"
    by (simp add: CopyTo_def AllocateBCSR_def set_backend_def shape_asserts_def
          platform_defs fixture_defs)
  have 3: "fault_of (and_then populated_hip (\<lambda>dst. CopyToAsync Double vacant_hip (HIP_BCSR dst)))
     = Some AssertionFailed \<and>
   issued backend0 (and_then populated_hip (\<lambda>dst. CopyToAsync Double vacant_hip (HIP_BCSR dst)))
     = issued backend0 populated_hip @ [Free Device (Addr 0), Free Device (Addr 1), Free Device (Addr 2)]"
    by (simp add: issued_def CopyToAsync_def AllocateBCSR_def Clear_def set_backend_def
          shape_asserts_def platform_defs fixture_defs)
  have 4: "and_then populated_hip (\<lambda>dst. CopyTo Double vacant_hip (HIP_BCSR dst))
             = and_then populated_hip (\<lambda>this. Abort AssertionFailed)"
    by (subst (1 2) pop) (simp add: CopyTo_def shape_asserts_def set_backend_def and_then_def vacant_hip_def empty_hip_def)
  have 5: "and_then populated_hip (\<lambda>this. Abort AssertionFailed) =
            Abort AssertionFailed (case populated_hip of Return h b \<Rightarrow> b | Abort e b \<Rightarrow> b)"
    by (subst pop) (simp add: and_then_def)
  have 6: "calls_of populated_hip = calls (case populated_hip of Return h b \<Rightarrow> b | Abort e b \<Rightarrow> b)"
    by (subst pop) simp
  show ?thesis
    using 2 3 by (simp add: 1 4 5 6 issued_def)
qed

text \<open>
  Claim C3 (after every mutating operation the handle has \<open>nrow = nrowb * blockdim\<close>,
  \<open>ncol = ncolb * blockdim\<close> and \<open>nnz = nnzb * blockdim * blockdim\<close>). \<open>Clear\<close> resets
  \<open>nrow\<close>, \<open>ncol\<close> and \<open>nnz\<close> and leaves the counts of the layout as they were: after
  \<open>Clear\<close> of the populated matrix of one 2 by 2 block, \<open>nrow = 0\<close> while
  \<open>nrowb * blockdim = 2\<close>.
\<close>

theorem Clear_breaks_shape_equalities:
  "returned (and_then populated_hip (\<lambda>h b. ret (Clear h b))) =
     Some \<lparr>nrow_' = 0, ncol_' = 0, nnz_' = 0, local_backend_' = descr0,
           mat_' = \<lparr>nrowb = 1, ncolb = 1, nnzb = 1, blockdim = 2, row_offset = NULL,
                    col = NULL, val = NULL\<rparr>,
           mat_descr_' = 0, blockdim_' = 0\<rparr> \<and>
   map_option shape_consistent (returned (and_then populated_hip (\<lambda>h b. ret (Clear h b))))
     = Some False"
  by (simp add: ret_def Clear_def AllocateBCSR_def shape_consistent_def platform_defs
        fixture_defs split_def)

text \<open>
  Claim C3, amended. The three equalities hold for the handle written when
  \<open>AllocateBCSR\<close> with \<open>nnzb > 0\<close>, \<open>SetDataPtrBCSR\<close> or \<open>LeaveDataPtrBCSR\<close> returns,
  when a copy returns whose source satisfies them, and when \<open>ConvertFrom\<close> of a source
  with \<open>nnz \<noteq> 0\<close> (satisfying them, if it is a block matrix) returns true. \<open>Clear\<close> of a
  populated handle sets \<open>nrow = ncol = nnz = 0\<close> and leaves \<open>nrowb\<close>, \<open>ncolb\<close>, \<open>nnzb\<close>
  and \<open>blockdim\<close> of the layout unchanged.
\<close>

theorem shape_equalities_after_mutation:
  "(0 < nnzb' \<longrightarrow> AllocateBCSR vt this nnzb' nrowb' ncolb' blockdim' b = Return this' b'
      \<longrightarrow> shape_consistent this') \<and>
   (SetDataPtrBCSR this row_offset' col' val' nnzb' nrowb' ncolb' blockdim' b = Return this' b'
      \<longrightarrow> shape_consistent this') \<and>
   (LeaveDataPtrBCSR this b = Return (this', row_offset', col', val', d') b'
      \<longrightarrow> shape_consistent this') \<and>
   (shape_consistent_host hsrc \<longrightarrow> CopyFromHost vt this hsrc b = Return this' b'
      \<longrightarrow> shape_consistent this') \<and>
   (shape_consistent_host hsrc \<longrightarrow> CopyFromHostAsync vt this hsrc b = Return this' b'
      \<longrightarrow> shape_consistent this') \<and>
   (shape_consistent_base src \<longrightarrow> CopyFrom vt this src b = Return this' b'
      \<longrightarrow> shape_consistent this') \<and>
   (shape_consistent_base src \<longrightarrow> CopyFromAsync vt this src b = Return this' b'
      \<longrightarrow> shape_consistent this') \<and>
   (shape_consistent this \<longrightarrow> CopyToHost vt this hdst b = Return hdst' b'
      \<longrightarrow> shape_consistent_host hdst') \<and>
   (shape_consistent this \<longrightarrow> CopyToHostAsync vt this hdst b = Return hdst' b'
      \<longrightarrow> shape_consistent_host hdst') \<and>
   (shape_consistent this \<longrightarrow> CopyTo vt this dst b = Return dst' b'
      \<longrightarrow> shape_consistent_base dst') \<and>
   (shape_consistent this \<longrightarrow> CopyToAsync vt this dst b = Return dst' b'
      \<longrightarrow> shape_consistent_base dst') \<and>
   (GetNnz src \<noteq> 0 \<longrightarrow> shape_consistent_base src
      \<longrightarrow> ConvertFrom csr_to_bcsr_hip vt this src b = Return (True, this') b'
      \<longrightarrow> shape_consistent this') \<and>
   (0 < nnz_' this \<longrightarrow>
      nrow_' (fst (Clear this b)) = 0 \<and> ncol_' (fst (Clear this b)) = 0 \<and>
      nnz_' (fst (Clear this b)) = 0 \<and>
      nrowb (mat_' (fst (Clear this b))) = nrowb (mat_' this) \<and>
      ncolb (mat_' (fst (Clear this b))) = ncolb (mat_' this) \<and>
      nnzb (mat_' (fst (Clear this b))) = nnzb (mat_' this) \<and>
      blockdim (mat_' (fst (Clear this b))) = blockdim (mat_' this))"
proof -
  have clear: "0 < nnz_' this \<longrightarrow>
      nrow_' (fst (Clear this b)) = 0 \<and> ncol_' (fst (Clear this b)) = 0 \<and>
      nnz_' (fst (Clear this b)) = 0"
    by (simp add: Clear_populated)
  show ?thesis
    using clear
    by (simp add: Clear_layout)
       (blast intro: AllocateBCSR_shape SetDataPtrBCSR_shape LeaveDataPtrBCSR_shape
          CopyFromHost_shape CopyFromHostAsync_shape CopyFrom_shape CopyFromAsync_shape
          CopyToHost_shape CopyToHostAsync_shape CopyTo_shape CopyToAsync_shape
          ConvertFrom_shape)
qed

theorem shape_equalities_after_mutation_witness:
  "(\<exists>h b. AllocateBCSR Double empty_hip 1 1 1 2 backend0 = Return h b \<and>
      shape_consistent h \<and> 0 < nnz_' h \<and>
      nrow_' (fst (Clear h b)) = 0 \<and> nrowb (mat_' (fst (Clear h b))) = 1 \<and>
      blockdim (mat_' (fst (Clear h b))) = 2) \<and>
   (\<exists>h b. ConvertFrom identity4_kernel Double (empty_hip\<lparr>blockdim_' := 2\<rparr>) (HIP_CSR csr4)
             backend0 = Return (True, h) b \<and>
      shape_consistent h \<and> nrowb (mat_' h) = 2 \<and> ncolb (mat_' h) = 2 \<and> nnzb (mat_' h) = 2)"
proof -
  obtain h b where 1: "AllocateBCSR Double empty_hip 1 1 1 2 backend0 = Return h b"
    using AllocateBCSR_total[of 1 1 1 2 Double empty_hip backend0] by auto
  have 2: "0 < nnz_' h \<and> nrowb (mat_' h) = 1 \<and> blockdim (mat_' h) = 2"
    using AllocateBCSR_Return(2)[OF 1] by simp
  note T = shape_equalities_after_mutation[where this = empty_hip and vt = Double
      and nnzb' = 1 and nrowb' = 1 and ncolb' = 1 and blockdim' = 2 and b = backend0
      and this' = h and b' = b]
  have 3: "shape_consistent h" using T 1 by simp
  note U = shape_equalities_after_mutation[where this = h and b = b]
  have 4: "nrow_' (fst (Clear h b)) = 0 \<and> nrowb (mat_' (fst (Clear h b))) = 1 \<and>
           blockdim (mat_' (fst (Clear h b))) = 2"
    using U 2 by simp
  obtain h' b' where
    5: "ConvertFrom identity4_kernel Double (empty_hip\<lparr>blockdim_' := 2\<rparr>) (HIP_CSR csr4)
          backend0 = Return (True, h') b'"
    and 6: "nrowb (mat_' h') = 2 \<and> ncolb (mat_' h') = 2 \<and> nnzb (mat_' h') = 2"
    by (simp add: ConvertFrom_def Clear_def identity4_kernel_def csr4_def empty_hip_def
          Let_def split_def)
  note V = shape_equalities_after_mutation[where this = "empty_hip\<lparr>blockdim_' := 2\<rparr>"
      and vt = Double and src = "HIP_CSR csr4" and csr_to_bcsr_hip = identity4_kernel
      and b = backend0 and this' = h' and b' = b']
  have 7: "shape_consistent h'" using V 5 by (simp add: csr4_def)
  show ?thesis using 1 2 3 4 5 6 7 by blast
qed

text \<open>
  Claim C4 (with \<open>nnz = 0\<close> on both sides an asynchronous transfer skips the three
  copies, the synchronous transfer issues all three as zero-length operations, and both
  leave the destination in the same state). The synchronous row-pointer copy has
  \<open>nrowb + 1\<close> elements: between two empty handles with \<open>nrowb = 0\<close> the synchronous
  \<open>CopyFrom\<close> issues a first copy of 4 bytes.
\<close>

theorem sync_row_copy_not_zero_length:
  "nnz_' vacant_hip = 0 \<and>
   issued_copies backend0 (CopyFrom Double vacant_hip (HIP_BCSR vacant_hip) backend0) =
     [Memcpy NULL NULL 4 hipMemcpyDeviceToDevice,
      Memcpy NULL NULL 0 hipMemcpyDeviceToDevice,
      Memcpy NULL NULL 0 hipMemcpyDeviceToDevice]"
  by (simp add: issued_copies_def issued_def CopyFrom_def AllocateBCSR_def shape_asserts_def
        and_then_def sizeof_int_def Let_def fixture_defs)

text \<open>
  Claim C4, amended. With \<open>nnz = 0\<close> on both sides, every asynchronous transfer issues no
  copy; the synchronous transfer returns exactly when the asynchronous one does, with
  the same destination handle; and when it returns it has issued all three copies: the
  row-pointer copy of \<open>(nrowb + 1) * sizeof(int)\<close> bytes, which is never zero-length,
  and the column-index and value copies of zero bytes.
\<close>

theorem transfers_between_empty_matrices:
  assumes "nnz_' this = 0" and "nnz_' hip = 0" and "nnz_' host = 0"
  shows
   "issued_copies b (CopyFromHostAsync vt this (Host_BCSR host) b) = [] \<and>
    issued_copies b (CopyToHostAsync vt this (Host_BCSR host) b) = [] \<and>
    issued_copies b (CopyFromAsync vt this (HIP_BCSR hip) b) = [] \<and>
    issued_copies b (CopyToAsync vt this (HIP_BCSR hip) b) = [] \<and>
    returned (CopyFromHost vt this (Host_BCSR host) b)
      = returned (CopyFromHostAsync vt this (Host_BCSR host) b) \<and>
    returned (CopyToHost vt this (Host_BCSR host) b)
      = returned (CopyToHostAsync vt this (Host_BCSR host) b) \<and>
    returned (CopyFrom vt this (HIP_BCSR hip) b)
      = returned (CopyFromAsync vt this (HIP_BCSR hip) b) \<and>
    returned (CopyTo vt this (HIP_BCSR hip) b)
      = returned (CopyToAsync vt this (HIP_BCSR hip) b) \<and>
    (returned (CopyFromHost vt this (Host_BCSR host) b) \<noteq> None \<longrightarrow>
       issued_copies b (CopyFromHost vt this (Host_BCSR host) b) =
         [Memcpy (row_offset (mat_' this)) (row_offset (mat_' host))
            ((nrowb (mat_' host) + 1) * sizeof_int) hipMemcpyHostToDevice,
          Memcpy (col (mat_' this)) (col (mat_' host)) 0 hipMemcpyHostToDevice,
          Memcpy (val (mat_' this)) (val (mat_' host)) 0 hipMemcpyHostToDevice] \<and>
       0 < (nrowb (mat_' host) + 1) * sizeof_int) \<and>
    (returned (CopyToHost vt this (Host_BCSR host) b) \<noteq> None \<longrightarrow>
       issued_copies b (CopyToHost vt this (Host_BCSR host) b) =
         [Memcpy (row_offset (mat_' host)) (row_offset (mat_' this))
            ((nrowb (mat_' this) + 1) * sizeof_int) hipMemcpyDeviceToHost,
          Memcpy (col (mat_' host)) (col (mat_' this)) 0 hipMemcpyDeviceToHost,
          Memcpy (val (mat_' host)) (val (mat_' this)) 0 hipMemcpyDeviceToHost] \<and>
       0 < (nrowb (mat_' this) + 1) * sizeof_int) \<and>
    (returned (CopyFrom vt this (HIP_BCSR hip) b) \<noteq> None \<longrightarrow>
       issued_copies b (CopyFrom vt this (HIP_BCSR hip) b) =
         [Memcpy (row_offset (mat_' this)) (row_offset (mat_' hip))
            ((nrowb (mat_' hip) + 1) * sizeof_int) hipMemcpyDeviceToDevice,
          Memcpy (col (mat_' this)) (col (mat_' hip)) 0 hipMemcpyDeviceToDevice,
          Memcpy (val (mat_' this)) (val (mat_' hip)) 0 hipMemcpyDeviceToDevice] \<and>
       0 < (nrowb (mat_' hip) + 1) * sizeof_int) \<and>
    (returned (CopyTo vt this (HIP_BCSR hip) b) \<noteq> None \<longrightarrow>
       issued_copies b (CopyTo vt this (HIP_BCSR hip) b) =
         [Memcpy (row_offset (mat_' hip)) (row_offset (mat_' this))
            ((nrowb (mat_' this) + 1) * sizeof_int) hipMemcpyDeviceToDevice,
          Memcpy (col (mat_' hip)) (col (mat_' this)) 0 hipMemcpyDeviceToDevice,
          Memcpy (val (mat_' hip)) (val (mat_' this)) 0 hipMemcpyDeviceToDevice] \<and>
       0 < (nrowb (mat_' this) + 1) * sizeof_int)"
  using CopyFromHost_both_empty[OF assms(1) assms(3), where b = b and vt = vt]
        CopyToHost_both_empty[OF assms(1) assms(3), where b = b and vt = vt]
        CopyFrom_both_empty[OF assms(1) assms(2), where b = b and vt = vt]
        CopyTo_both_empty[OF assms(1) assms(2), where b = b and vt = vt]
  by simp

theorem transfers_between_empty_matrices_witness:
  "issued_copies backend0 (CopyToHostAsync Double vacant_hip (Host_BCSR vacant_host) backend0)
     = [] \<and>
   returned (CopyToHostAsync Double vacant_hip (Host_BCSR vacant_host) backend0)
     = Some (Host_BCSR vacant_host) \<and>
   returned (CopyToHost Double vacant_hip (Host_BCSR vacant_host) backend0)
     = Some (Host_BCSR vacant_host) \<and>
   issued_copies backend0 (CopyToHost Double vacant_hip (Host_BCSR vacant_host) backend0) =
     [Memcpy NULL NULL 4 hipMemcpyDeviceToHost,
      Memcpy NULL NULL 0 hipMemcpyDeviceToHost,
      Memcpy NULL NULL 0 hipMemcpyDeviceToHost]"
proof -
  have 1: "returned (CopyToHostAsync Double vacant_hip (Host_BCSR vacant_host) backend0)
             = Some (Host_BCSR vacant_host)"
    by (simp add: CopyToHostAsync_def Host_AllocateBCSR_def Host_Clear_def set_backend_def
          shape_asserts_def and_then_def Let_def fixture_defs)
  show ?thesis
    using transfers_between_empty_matrices[where this = vacant_hip and hip = vacant_hip
            and host = vacant_host and b = backend0 and vt = Double] 1
    by (simp add: vacant_hip_def vacant_host_def empty_hip_def empty_host_def
          empty_layout_def sizeof_int_def)
qed





text \<open>
  Claim C9. For every handle with \<open>nnz = 0\<close> and every pair of vectors, \<open>Apply\<close> and
  \<open>ApplyAdd\<close> return and leave the platform state as it was: the memory, which holds
  the data of the output vector, is untouched and nothing is added to the log, so the
  multiply kernel is not invoked, whatever kernel is supplied.
\<close>

theorem Apply_on_empty_matrix:
  assumes "nnz_' this = 0"
  shows "Apply rocsparseTbsrmv BCSR_IND_BASE this in' out b = Return () b \<and>
         ApplyAdd rocsparseTbsrmv BCSR_IND_BASE this in' scalar out b = Return () b"
  using assms by (simp add: Apply_def ApplyAdd_def)

theorem Apply_on_empty_matrix_witness:
  "Apply idle_bsrmv 0 empty_hip vector0 vector0 backend0 = Return () backend0 \<and>
   ApplyAdd idle_bsrmv 0 empty_hip vector0 2 vector0 backend0 = Return () backend0"
  using Apply_on_empty_matrix[where this = empty_hip and rocsparseTbsrmv = idle_bsrmv
          and BCSR_IND_BASE = 0 and in' = vector0 and out = vector0 and b = backend0
          and scalar = 2]
  by (simp add: empty_hip_def)



text \<open>
  Claim C8 (a source that is neither the accelerator block matrix nor a supported host
  counterpart makes \<open>CopyFrom\<close> and \<open>CopyTo\<close> log both operands and terminate fatally,
  and makes \<open>ConvertFrom\<close> return false). An unblocked accelerator matrix is such a
  source for the copies: its format differs, and the format assertion at the head of
  \<open>CopyFrom\<close> ends the run with nothing logged. A source of another class with
  \<open>nnz = 0\<close> makes \<open>ConvertFrom\<close> return true.
\<close>

theorem unsupported_source_counterexample:
  "unsupported_for_copy (HIP_CSR csr4) \<and>
   CopyFrom Double empty_hip (HIP_CSR csr4) backend0 = Abort AssertionFailed backend0 \<and>
   calls backend0 = [] \<and>
   unsupported_for_convert (Other_matrix ELL empty_base) \<and>
   ConvertFrom failing_kernel Double empty_hip (Other_matrix ELL empty_base) backend0
     = Return (True, empty_hip) backend0"
  by (simp add: CopyFrom_def ConvertFrom_def Clear_def Let_def fixture_defs)

text \<open>
  Claim C8, amended. Let the argument be of a class the copies have no path for
  (neither the accelerator block matrix nor the host block matrix). If its format tag
  is the block format, \<open>CopyFrom\<close>, \<open>CopyTo\<close> and their asynchronous variants log the
  error line, the \<open>Info\<close> of \<open>this\<close> and the \<open>Info\<close> of the argument and terminate
  fatally; if its format tag is another one, the format assertion ends the run before
  anything is logged. \<open>ConvertFrom\<close> on a source that is neither the accelerator block
  matrix nor the accelerator unblocked matrix returns without terminating, false when
  the source has \<open>nnz \<noteq> 0\<close> and true when it has \<open>nnz = 0\<close>, with the handle cleared.
\<close>

theorem unsupported_source_dispatch:
  "(unsupported_for_copy m \<and> GetMatFormat m = BCSR \<longrightarrow>
      CopyFrom vt this m b =
        Abort FatalError
          (Info_base m (Info (log_call (LOG_INFO ''Error unsupported HIP matrix type'') b))) \<and>
      CopyTo vt this m b =
        Abort FatalError
          (Info_base m (Info (log_call (LOG_INFO ''Error unsupported HIP matrix type'') b))) \<and>
      CopyFromAsync vt this m b =
        Abort FatalError
          (Info_base m (Info (log_call (LOG_INFO ''Error unsupported HIP matrix type'') b))) \<and>
      CopyToAsync vt this m b =
        Abort FatalError
          (Info_base m (Info (log_call (LOG_INFO ''Error unsupported HIP matrix type'') b)))) \<and>
   (GetMatFormat m \<noteq> BCSR \<longrightarrow>
      CopyFrom vt this m b = Abort AssertionFailed b \<and>
      CopyTo vt this m b = Abort AssertionFailed b \<and>
      CopyFromAsync vt this m b = Abort AssertionFailed b \<and>
      CopyToAsync vt this m b = Abort AssertionFailed b) \<and>
   (unsupported_for_convert m \<longrightarrow>
      ConvertFrom csr_to_bcsr_hip vt this m b =
        Return (GetNnz m = 0, fst (Clear this b)) (snd (Clear this b)))"
  using copy_unsupported[of m vt this b] copy_format_assert[of m vt this b]
        ConvertFrom_unsupported[of m csr_to_bcsr_hip vt this b]
  by (simp add: unsupported_def)

theorem unsupported_source_dispatch_witness:
  "fault_of (CopyFrom Double empty_hip (Other_matrix BCSR empty_base) backend0)
     = Some FatalError \<and>
   calls_of (CopyFrom Double empty_hip (Other_matrix BCSR empty_base) backend0) =
     [LOG_INFO ''Error unsupported HIP matrix type'',
      LOG_INFO ''HIPAcceleratorMatrixBCSR<ValueType>'',
      LOG_INFO ''BaseMatrix<ValueType>''] \<and>
   CopyTo Double empty_hip (HIP_CSR csr4) backend0 = Abort AssertionFailed backend0 \<and>
   ConvertFrom failing_kernel Double empty_hip
     (Host_matrix (Host_other CSR (empty_base\<lparr>nnz_' := 4\<rparr>))) backend0
     = Return (False, empty_hip) backend0"
  using unsupported_source_dispatch[where m = "Other_matrix BCSR empty_base" and vt = Double
          and this = empty_hip and b = backend0]
        unsupported_source_dispatch[where m = "HIP_CSR csr4" and vt = Double
          and this = empty_hip and b = backend0]
        unsupported_source_dispatch[where
          m = "Host_matrix (Host_other CSR (empty_base\<lparr>nnz_' := 4\<rparr>))" and vt = Double
          and this = empty_hip and b = backend0 and csr_to_bcsr_hip = failing_kernel]
  by (simp add: Info_def log_call_def Clear_def fixture_defs)

text \<open>
  Claim C10. \<open>AllocateBCSR\<close> never writes the member \<open>blockdim_\<close> of the handle: for
  every handle, \<open>blockdim_\<close> after \<open>AllocateBCSR\<close> equals \<open>blockdim_\<close> before. The same
  holds for \<open>Clear\<close>, \<open>LeaveDataPtrBCSR\<close>, every copy (of the handle written) and
  \<open>ConvertFrom\<close>, which reads it as the target block dimension; \<open>SetDataPtrBCSR\<close>
  alone writes it, with its argument \<open>blockdim\<close>.
\<close>

theorem blockdim_member_written_by_SetDataPtr_only:
  "(AllocateBCSR vt this nnzb' nrowb' ncolb' blockdim' b = Return this' b'
      \<longrightarrow> blockdim_' this' = blockdim_' this) \<and>
   blockdim_' (fst (Clear this b)) = blockdim_' this \<and>
   (LeaveDataPtrBCSR this b = Return (this', row_offset', col', val', d') b'
      \<longrightarrow> blockdim_' this' = blockdim_' this) \<and>
   (CopyFromHost vt this hsrc b = Return this' b' \<longrightarrow> blockdim_' this' = blockdim_' this) \<and>
   (CopyFromHostAsync vt this hsrc b = Return this' b' \<longrightarrow> blockdim_' this' = blockdim_' this) \<and>
   (CopyFrom vt this src b = Return this' b' \<longrightarrow> blockdim_' this' = blockdim_' this) \<and>
   (CopyFromAsync vt this src b = Return this' b' \<longrightarrow> blockdim_' this' = blockdim_' this) \<and>
   (CopyTo vt other (HIP_BCSR this) b = Return (HIP_BCSR this') b'
      \<longrightarrow> blockdim_' this' = blockdim_' this) \<and>
   (CopyToAsync vt other (HIP_BCSR this) b = Return (HIP_BCSR this') b'
      \<longrightarrow> blockdim_' this' = blockdim_' this) \<and>
   (ConvertFrom csr_to_bcsr_hip vt this src b = Return (ok, this') b'
      \<longrightarrow> blockdim_' this' = blockdim_' this) \<and>
   (SetDataPtrBCSR this row_offset' col' val' nnzb' nrowb' ncolb' blockdim' b = Return this' b'
      \<longrightarrow> blockdim_' this' = blockdim')"
proof -
  have leave: "LeaveDataPtrBCSR this b = Return (this', row_offset', col', val', d') b'
      \<longrightarrow> blockdim_' this' = blockdim_' this"
    by (auto simp: LeaveDataPtrBCSR_def Let_def split: if_splits)
  have set: "SetDataPtrBCSR this row_offset' col' val' nnzb' nrowb' ncolb' blockdim' b
      = Return this' b' \<longrightarrow> blockdim_' this' = blockdim'"
    by (auto simp: SetDataPtrBCSR_def Let_def split_def split: if_splits)
  show ?thesis
    using leave set
    by (simp add: AllocateBCSR_Return(4) Clear_keeps(3) CopyFromHost_blockdim
          CopyFromHostAsync_blockdim CopyFrom_blockdim CopyFromAsync_blockdim
          CopyTo_blockdim CopyToAsync_blockdim ConvertFrom_blockdim)
qed

theorem blockdim_member_written_by_SetDataPtr_only_witness:
  "\<exists>h1 b1 h2 b2.
     SetDataPtrBCSR empty_hip (Addr 0) (Addr 1) (Addr 2) 1 1 1 3 backend0 = Return h1 b1 \<and>
     blockdim_' h1 = 3 \<and>
     AllocateBCSR Double h1 1 1 1 2 b1 = Return h2 b2 \<and>
     blockdim (mat_' h2) = 2 \<and> blockdim_' h2 = 3"
proof -
  obtain h1 b1 where
    1: "SetDataPtrBCSR empty_hip (Addr 0) (Addr 1) (Addr 2) 1 1 1 3 backend0 = Return h1 b1"
    by (simp add: SetDataPtrBCSR_def Let_def split_def)
  obtain h2 b2 where 2: "AllocateBCSR Double h1 1 1 1 2 b1 = Return h2 b2"
    using AllocateBCSR_total[of 1 1 1 2 Double h1 b1] by auto
  have 3: "blockdim_' h1 = 3"
    using blockdim_member_written_by_SetDataPtr_only[where this = empty_hip
            and row_offset' = "Addr 0" and col' = "Addr 1" and val' = "Addr 2" and nnzb' = 1
            and nrowb' = 1 and ncolb' = 1 and blockdim' = 3 and b = backend0
            and this' = h1 and b' = b1] 1
    by simp
  have 4: "blockdim_' h2 = blockdim_' h1"
    using blockdim_member_written_by_SetDataPtr_only[where this = h1 and vt = Double
            and nnzb' = 1 and nrowb' = 1 and ncolb' = 1 and blockdim' = 2 and b = b1
            and this' = h2 and b' = b2] 2
    by simp
  have 5: "blockdim (mat_' h2) = 2"
    using AllocateBCSR_Return(2)[OF 2] by simp
  show ?thesis using 1 2 3 4 5 by simp
qed

end
